theory Spec2Isabelle
  imports Main "HOL-Library.Word"
begin

section \<open>JavaScript values as the program sees them\<close>

text \<open>
  The values that cross the program's boundaries are JSON documents. A number is kept as
  its ECMAScript rendering (\<open>Number::toString\<close>), which is all the program ever does
  with one besides testing it for truthiness. An object is an association list with
  distinct keys; a property that is absent reads as \<open>undefined\<close>, modelled as \<open>None\<close>.
\<close>

datatype json =
    JNull
  | JBool bool
  | JNum string
  | JStr string
  | JArr "json list"
  | JObj "(string \<times> json) list"

text \<open>
  A thrown value: an instance of \<open>Error\<close> (or of a subclass) with its message, or
  any other value, such as the \<open>ProgressEvent\<close> a \<open>FileReader\<close> hands to
  \<open>onerror\<close>.
\<close>

datatype thrown = ErrorObject string | OtherValue

type_synonym 'a outcome = "thrown + 'a"

text \<open>Truthiness, as \<open>!x\<close>, \<open>x || y\<close> and \<open>if (x)\<close> test it.\<close>

fun truthy :: "json \<Rightarrow> bool" where
  "truthy JNull = False"
| "truthy (JBool b) = b"
| "truthy (JNum s) = (s \<noteq> ''0'')"
| "truthy (JStr s) = (s \<noteq> [])"
| "truthy (JArr xs) = True"
| "truthy (JObj kvs) = True"

fun truthy_opt :: "json option \<Rightarrow> bool" where
  "truthy_opt None = False"
| "truthy_opt (Some v) = truthy v"

text \<open>\<open>a || b\<close>, where \<open>a\<close> may be \<open>undefined\<close>.\<close>

fun or_else :: "json option \<Rightarrow> json \<Rightarrow> json" where
  "or_else None b = b"
| "or_else (Some a) b = (if truthy a then a else b)"


text \<open>
  \<open>ToString\<close>, which \<open>new Error(v)\<close>, a template literal and \<open>fetch(v)\<close> apply.
  An object is rendered by its \<open>toString\<close>: a JSON object inherits the one that gives
  \<open>[object Object]\<close>, unless it has a property \<open>toString\<close> of its own, which is no
  function; then \<open>valueOf\<close> gives no primitive either and a \<open>TypeError\<close> is thrown
  (the message is V8's). An array joins the renderings of its elements with commas, a
  \<open>null\<close> element as the empty string, and throws when an element does.
\<close>

fun to_string :: "json \<Rightarrow> string outcome"
  and join_elements :: "json list \<Rightarrow> string outcome" where
  "to_string JNull = Inr ''null''"
| "to_string (JBool b) = Inr (if b then ''true'' else ''false'')"
| "to_string (JNum s) = Inr s"
| "to_string (JStr s) = Inr s"
| "to_string (JArr xs) = join_elements xs"
| "to_string (JObj kvs) =
     (if map_of kvs ''toString'' = None then Inr ''[object Object]''
      else Inl (ErrorObject ''Cannot convert object to primitive value''))"
| "join_elements [] = Inr []"
| "join_elements (x # xs) =
     (case (if x = JNull then Inr [] else to_string x) of
        Inl e \<Rightarrow> Inl e
      | Inr s \<Rightarrow>
          (if xs = [] then Inr s
           else (case join_elements xs of
                   Inl e \<Rightarrow> Inl e
                 | Inr t \<Rightarrow> Inr (s @ '','' @ t))))"

text \<open>
  Reading a property \<open>v.k\<close>. On \<open>null\<close> it throws a \<open>TypeError\<close> (the message
  is V8's). None of the names this program reads (\<open>error\<close>, \<open>image\<close>,
  \<open>urls\<close>, \<open>regular\<close>, \<open>full\<close>, \<open>user\<close>, \<open>name\<close>, \<open>links\<close>,
  \<open>html\<close>) is inherited from a prototype of a JSON value, so only an object's own
  properties are found.
\<close>

fun get_prop :: "json \<Rightarrow> string \<Rightarrow> json option outcome" where
  "get_prop JNull k =
     Inl (ErrorObject (''Cannot read properties of null (reading '' @ [CHR 0x27] @ k @ [CHR 0x27] @ '')''))"
| "get_prop (JObj kvs) k = Inr (map_of kvs k)"
| "get_prop v k = Inr None"


text \<open>The decimal rendering of a non-negative integer, as a template literal gives it.\<close>

definition digit_char :: "nat \<Rightarrow> char" where
  "digit_char d = ''0123456789'' ! d"

function number_to_string :: "nat \<Rightarrow> string" where
  "number_to_string n =
     (if n < 10 then [digit_char n] else number_to_string (n div 10) @ [digit_char (n mod 10)])"
  by pat_completeness auto
termination
  by (relation "measure id") auto

declare number_to_string.simps [simp del]

text \<open>\<open>s.startsWith(p)\<close>.\<close>

definition startsWith :: "string \<Rightarrow> string \<Rightarrow> bool" where
  "startsWith s p = (take (length p) s = p)"

text \<open>An environment variable that is unset reads as \<open>undefined\<close>.\<close>

fun env_truthy :: "string option \<Rightarrow> bool" where
  "env_truthy None = False"
| "env_truthy (Some s) = (s \<noteq> [])"

fun env_string :: "string option \<Rightarrow> string" where
  "env_string None = ''undefined''"
| "env_string (Some s) = s"

section \<open>Base64 and data URLs\<close>

type_synonym byte = "8 word"

definition b64_alphabet :: string where
  "b64_alphabet = ''ABCDEFGHIJKLMNOPQRSTUVWXYZabcdefghijklmnopqrstuvwxyz0123456789+/''"

definition b64_char :: "nat \<Rightarrow> char" where
  "b64_char i = b64_alphabet ! (i mod 64)"

fun base64 :: "byte list \<Rightarrow> string" where
  "base64 [] = []"
| "base64 [a] =
     (let n = unat a * 65536
      in [b64_char (n div 262144), b64_char (n div 4096), CHR ''='', CHR ''=''])"
| "base64 [a, b] =
     (let n = unat a * 65536 + unat b * 256
      in [b64_char (n div 262144), b64_char (n div 4096), b64_char (n div 64), CHR ''=''])"
| "base64 (a # b # c # rest) =
     (let n = unat a * 65536 + unat b * 256 + unat c
      in [b64_char (n div 262144), b64_char (n div 4096), b64_char (n div 64), b64_char n]
         @ base64 rest)"

definition data_url :: "string \<Rightarrow> byte list \<Rightarrow> string" where
  "data_url mime bytes = ''data:'' @ mime @ '';base64,'' @ base64 bytes"

section \<open>Files, requests and responses\<close>

text \<open>A \<open>Blob\<close> (a \<open>File\<close> is one): its media type and its bytes; \<open>size\<close> counts the bytes.\<close>

record blob =
  blob_type :: string
  blob_bytes :: "byte list"

definition blob_size :: "blob \<Rightarrow> nat" where
  "blob_size b = length (blob_bytes b)"

record request =
  req_url :: string
  req_method :: string
  req_headers :: "(string \<times> string) list"
  req_body :: "json option"

text \<open>
  A response as \<open>fetch\<close> resolves it: the status; the \<open>content-type\<close> header as
  \<open>headers.get\<close> reads it; the MIME type that \<open>blob()\<close> gives the blob, which is the
  header parsed and serialised again (empty when there is none or it does not parse); what
  \<open>response.json()\<close> settles to (it rejects when the body is not JSON); and what
  reading the bytes of the body (\<open>blob()\<close>, \<open>arrayBuffer()\<close>) settles to (it rejects
  when the transfer breaks off).
\<close>

record response =
  status :: nat
  content_type :: "string option"
  mime_type :: string
  body_json :: "json outcome"
  body_bytes :: "byte list outcome"

definition ok :: "response \<Rightarrow> bool" where
  "ok r = (200 \<le> status r \<and> status r \<le> 299)"

text \<open>The effects a client function performs, in order.\<close>

datatype effect = ReadAsDataURL blob | Fetch request

text \<open>
  The world outside the client: the public configuration, how each \<open>fetch\<close> settles
  (\<open>Inl\<close> is a rejection, a transport failure), and which reads of a blob fail.
\<close>

record client_env =
  API_URL :: "string option"
  API_KEY :: "string option"
  fetch :: "request \<Rightarrow> response outcome"
  read_fails :: "blob \<Rightarrow> bool"

section \<open>The API client (lib/api.ts)\<close>

text \<open>
  \<open>FileReader.readAsDataURL\<close> inside a promise: \<open>onerror\<close> rejects with the event,
  which is not an \<open>Error\<close>; \<open>onloadend\<close> resolves with the data URL. A blob without
  a type is rendered as \<open>application/octet-stream\<close>.
\<close>

definition fileToBase64 :: "client_env \<Rightarrow> blob \<Rightarrow> string outcome" where
  "fileToBase64 env file =
     (if read_fails env file then Inl OtherValue
      else Inr (data_url (if blob_type file = [] then ''application/octet-stream'' else blob_type file)
                  (blob_bytes file)))"

definition get_request :: "string \<Rightarrow> request" where
  "get_request u = \<lparr>req_url = u, req_method = ''GET'', req_headers = [], req_body = None\<rparr>"

text \<open>\<open>response.blob()\<close>: the bytes of the body under the response's MIME type.\<close>

definition response_blob :: "response \<Rightarrow> blob outcome" where
  "response_blob r =
     (case body_bytes r of
        Inl e \<Rightarrow> Inl e
      | Inr bytes \<Rightarrow>
          Inr \<lparr>blob_type = mime_type r, blob_bytes = bytes\<rparr>)"

text \<open>\<open>urlToBase64\<close>: fetch, take the blob, read it as a data URL. There is no test of the status.\<close>

definition urlToBase64 :: "client_env \<Rightarrow> string \<Rightarrow> string outcome" where
  "urlToBase64 env u =
     (case fetch env (get_request u) of
        Inl e \<Rightarrow> Inl e
      | Inr resp \<Rightarrow>
          (case response_blob resp of
             Inl e \<Rightarrow> Inl e
           | Inr blob \<Rightarrow> fileToBase64 env blob))"

text \<open>
  The shared tail of both predict functions on a response that is not ok:
  \<open>errorData = await response.json().catch(() => ({ error: 'Unknown error' }))\<close>, then
  \<open>throw new Error(errorData.error || `HTTP error! status: ${response.status}`)\<close>.
\<close>

definition errorData_of :: "response \<Rightarrow> json" where
  "errorData_of r =
     (case body_json r of
        Inl e \<Rightarrow> JObj [(''error'', JStr ''Unknown error'')]
      | Inr v \<Rightarrow> v)"

text \<open>
  What is thrown there: the \<open>TypeError\<close> of reading \<open>error\<close> from \<open>null\<close>, the
  \<open>TypeError\<close> of a message that cannot be rendered, or the new \<open>Error\<close>.
\<close>

definition throw_http_error :: "response \<Rightarrow> thrown" where
  "throw_http_error r =
     (case get_prop (errorData_of r) ''error'' of
        Inl e \<Rightarrow> e
      | Inr p \<Rightarrow>
          (case to_string (or_else p (JStr (''HTTP error! status: '' @ number_to_string (status r)))) of
             Inl e \<Rightarrow> e
           | Inr m \<Rightarrow> ErrorObject m))"

text \<open>The \<open>catch\<close> block of both predict functions.\<close>

fun catch_to_result :: "thrown \<Rightarrow> json" where
  "catch_to_result (ErrorObject m) = JObj [(''error'', JStr m)]"
| "catch_to_result OtherValue = JObj [(''error'', JStr ''An unexpected error occurred'')]"

definition maxSize :: nat where
  "maxSize = 5 * 1024 * 1024"

definition predict_request :: "client_env \<Rightarrow> string \<Rightarrow> request" where
  "predict_request env imageBase64 =
     \<lparr>req_url = env_string (API_URL env) @ ''/predict'',
      req_method = ''POST'',
      req_headers = [(''Content-Type'', ''application/json''), (''X-API-Key'', env_string (API_KEY env))],
      req_body = Some (JObj [(''image'', JStr imageBase64)])\<rparr>"

text \<open>What \<open>predictPaw\<close> does with the response, inside its \<open>try\<close>.\<close>

definition predictPaw_response :: "response \<Rightarrow> json outcome" where
  "predictPaw_response r =
     (if status r = 429 then Inl (ErrorObject ''Too many requests. Please try again later.'')
      else if status r = 401 \<or> status r = 403
        then Inl (ErrorObject ''Authentication failed. Please check your API key.'')
      else if \<not> ok r then Inl (throw_http_error r)
      else body_json r)"

text \<open>The body of the \<open>try\<close> of \<open>predictPaw\<close>, with the effects performed.\<close>

definition predictPaw_try :: "client_env \<Rightarrow> blob \<Rightarrow> json outcome \<times> effect list" where
  "predictPaw_try env imageFile =
     (if \<not> startsWith (blob_type imageFile) ''image/''
        then (Inl (ErrorObject ''Please upload a valid image file''), [])
      else if blob_size imageFile > maxSize
        then (Inl (ErrorObject ''Image size should be less than 5MB''), [])
      else
        (case fileToBase64 env imageFile of
           Inl e \<Rightarrow> (Inl e, [ReadAsDataURL imageFile])
         | Inr imageBase64 \<Rightarrow>
             (let req = predict_request env imageBase64 in
              (case fetch env req of
                 Inl e \<Rightarrow> (Inl e, [ReadAsDataURL imageFile, Fetch req])
               | Inr r \<Rightarrow> (predictPaw_response r, [ReadAsDataURL imageFile, Fetch req])))))"

text \<open>
  \<open>try { ... } catch (error) { ... }\<close>: the handler's value replaces a thrown one. The
  result is again an outcome, since a handler may throw in its turn.
\<close>

definition try_catch :: "'a outcome \<Rightarrow> (thrown \<Rightarrow> 'a outcome) \<Rightarrow> 'a outcome" where
  "try_catch body handler = (case body of Inl e \<Rightarrow> handler e | Inr v \<Rightarrow> Inr v)"

definition predictPaw :: "client_env \<Rightarrow> blob \<Rightarrow> json outcome \<times> effect list" where
  "predictPaw env imageFile =
     (let (res, effs) = predictPaw_try env imageFile
      in (try_catch res (\<lambda>e. Inr (catch_to_result e)), effs))"

definition relay_request :: "string \<Rightarrow> request" where
  "relay_request imageBase64 =
     \<lparr>req_url = ''/api/predict'',
      req_method = ''POST'',
      req_headers = [(''Content-Type'', ''application/json'')],
      req_body = Some (JObj [(''image'', JStr imageBase64)])\<rparr>"

definition predictFromBase64_response :: "response \<Rightarrow> json outcome" where
  "predictFromBase64_response r = (if \<not> ok r then Inl (throw_http_error r) else body_json r)"

definition predictFromBase64_try :: "client_env \<Rightarrow> string \<Rightarrow> json outcome \<times> effect list" where
  "predictFromBase64_try env imageBase64 =
     (let req = relay_request imageBase64 in
      (case fetch env req of
         Inl e \<Rightarrow> (Inl e, [Fetch req])
       | Inr r \<Rightarrow> (predictFromBase64_response r, [Fetch req])))"

definition predictFromBase64 :: "client_env \<Rightarrow> string \<Rightarrow> json outcome \<times> effect list" where
  "predictFromBase64 env imageBase64 =
     (let (res, effs) = predictFromBase64_try env imageBase64
      in (try_catch res (\<lambda>e. Inr (catch_to_result e)), effs))"

section \<open>The relay routes (app/api/predict, app/api/random-dog)\<close>

text \<open>What a route handler answers: a status and a JSON body.\<close>

record reply =
  reply_status :: nat
  reply_body :: json

text \<open>
  \<open>NextResponse.json(body, { status })\<close> builds the answer with \<open>Response.json\<close>,
  which throws a \<open>RangeError\<close> for a status outside 200..599 and a \<open>TypeError\<close>
  for a body on a status that allows none (204, 205, 304).
\<close>

definition NextResponse_json :: "json \<Rightarrow> nat \<Rightarrow> reply outcome" where
  "NextResponse_json body st =
     (if st < 200 \<or> 599 < st
        then Inl (ErrorObject ''init[\"status\"] must be in the range of 200 to 599, inclusive.'')
      else if st = 204 \<or> st = 205 \<or> st = 304
        then Inl (ErrorObject (''Response constructor: Invalid response status code '' @ number_to_string st))
      else Inr \<lparr>reply_status = st, reply_body = body\<rparr>)"

definition error_body :: "string \<Rightarrow> json" where
  "error_body m = JObj [(''error'', JStr m)]"

text \<open>
  The server's world: its configuration (\<open>process.env\<close>) and how each \<open>fetch\<close> it
  makes settles.
\<close>

record server_env =
  NEXT_PUBLIC_API_URL :: "string option"
  NEXT_PUBLIC_API_KEY :: "string option"
  UNSPLASH_ACCESS_KEY :: "string option"
  server_fetch :: "request \<Rightarrow> response outcome"

text \<open>\<open>const { image } = body\<close>: destructuring \<open>null\<close> throws.\<close>

fun destructure_image :: "json \<Rightarrow> json option outcome" where
  "destructure_image JNull =
     Inl (ErrorObject
       (''Cannot destructure property '' @ [CHR 0x27] @ ''image'' @ [CHR 0x27] @ '' of ''
        @ [CHR 0x27] @ ''body'' @ [CHR 0x27] @ '' as it is null.''))"
| "destructure_image (JObj kvs) = Inr (map_of kvs ''image'')"
| "destructure_image v = Inr None"

definition forward_request :: "server_env \<Rightarrow> json \<Rightarrow> request" where
  "forward_request env img =
     \<lparr>req_url = env_string (NEXT_PUBLIC_API_URL env) @ ''/predict'',
      req_method = ''POST'',
      req_headers =
        [(''Content-Type'', ''application/json''), (''X-API-Key'', env_string (NEXT_PUBLIC_API_KEY env))],
      req_body = Some (JObj [(''image'', img)])\<rparr>"

text \<open>What \<open>POST\<close> makes of the inference service's response, inside its \<open>try\<close>.\<close>

definition POST_response :: "response \<Rightarrow> reply outcome" where
  "POST_response r =
     (if \<not> ok r then
        (case get_prop (errorData_of r) ''error'' of
           Inl e \<Rightarrow> Inl e
         | Inr p \<Rightarrow>
             NextResponse_json
               (JObj [(''error'', or_else p (JStr (''API error: '' @ number_to_string (status r))))])
               (status r))
      else
        (case body_json r of
           Inl e \<Rightarrow> Inl e
         | Inr data \<Rightarrow> NextResponse_json data 200))"

text \<open>
  The body of the \<open>try\<close> of \<open>POST\<close>; the argument \<open>body\<close> is what
  \<open>request.json()\<close> settles to.
\<close>

definition POST_try :: "server_env \<Rightarrow> json outcome \<Rightarrow> reply outcome \<times> effect list" where
  "POST_try env body =
     (if \<not> env_truthy (NEXT_PUBLIC_API_URL env) \<or> \<not> env_truthy (NEXT_PUBLIC_API_KEY env)
        then (NextResponse_json (error_body ''Server configuration error'') 500, [])
      else
        (case body of
           Inl e \<Rightarrow> (Inl e, [])
         | Inr b \<Rightarrow>
             (case destructure_image b of
                Inl e \<Rightarrow> (Inl e, [])
              | Inr None \<Rightarrow> (NextResponse_json (error_body ''No image provided'') 400, [])
              | Inr (Some img) \<Rightarrow>
                  (if \<not> truthy img
                     then (NextResponse_json (error_body ''No image provided'') 400, [])
                   else
                     (let req = forward_request env img in
                      (case server_fetch env req of
                         Inl e \<Rightarrow> (Inl e, [Fetch req])
                       | Inr r \<Rightarrow> (POST_response r, [Fetch req])))))))"

definition POST :: "server_env \<Rightarrow> json outcome \<Rightarrow> reply outcome \<times> effect list" where
  "POST env body =
     (let (res, effs) = POST_try env body
      in (try_catch res (\<lambda>e. NextResponse_json (error_body ''Internal server error'') 500), effs))"

definition unsplash_request :: "server_env \<Rightarrow> request" where
  "unsplash_request env =
     \<lparr>req_url = ''https://api.unsplash.com/photos/random?query=dog&client_id=''
                 @ env_string (UNSPLASH_ACCESS_KEY env),
      req_method = ''GET'',
      req_headers = [(''Accept-Version'', ''v1'')],
      req_body = None\<rparr>"



text \<open>\<open>data.k\<close> for a \<open>data\<close> on which an earlier read has succeeded.\<close>

definition prop_of :: "json \<Rightarrow> string \<Rightarrow> json option" where
  "prop_of data k = (case get_prop data k of Inl e \<Rightarrow> None | Inr p \<Rightarrow> p)"







section \<open>The page (app/page.tsx)\<close>

datatype ImageSource = Unsplash | Upload | Camera

text \<open>
  A \<open>MediaStreamTrack\<close> is live until \<open>stop()\<close> ends it. The browser owns the
  tracks; a \<open>MediaStream\<close> is the list of the ids of its tracks.
\<close>

datatype ready_state = Live | Ended

type_synonym media_stream = "nat list"

type_synonym tracks = "nat \<rightharpoonup> ready_state"

text \<open>
  The state of \<open>Home\<close>: its \<open>useState\<close> cells, and \<open>videoRef.current.srcObject\<close>.
  The video element is rendered exactly when \<open>cameraActive\<close> holds, so
  \<open>videoRef.current\<close> is set exactly then; the canvas is always rendered.
\<close>

record home_state =
  selectedImage :: "string option"
  result :: "json option"
  loading :: bool
  error :: "json option"
  imageSource :: "ImageSource option"
  unsplashAttribution :: "json option"
  cameraActive :: bool
  stream :: "media_stream option"
  video_srcObject :: "media_stream option"

definition initial_state :: home_state where
  "initial_state =
     \<lparr>selectedImage = None, result = None, loading = False, error = None, imageSource = None,
      unsplashAttribution = None, cameraActive = False, stream = None, video_srcObject = None\<rparr>"

text \<open>\<open>stream.getTracks().forEach(track => track.stop())\<close>.\<close>

definition stop_tracks :: "media_stream \<Rightarrow> tracks \<Rightarrow> tracks" where
  "stop_tracks ids tr = fold (\<lambda>i t. t(i \<mapsto> Ended)) ids tr"

text \<open>\<open>getUserMedia\<close> resolving: the browser opens the device and the new tracks are live.\<close>

definition open_tracks :: "media_stream \<Rightarrow> tracks \<Rightarrow> tracks" where
  "open_tracks ids tr = fold (\<lambda>i t. t(i \<mapsto> Live)) ids tr"

text \<open>\<open>startCamera\<close>; the first argument is what \<open>getUserMedia\<close> settles to.\<close>

definition startCamera :: "media_stream outcome \<Rightarrow> tracks \<times> home_state \<Rightarrow> tracks \<times> home_state" where
  "startCamera mediaStream w =
     (let (tr, h) = w in
      (case mediaStream of
         Inl e \<Rightarrow> (tr, h\<lparr>error := Some (JStr ''Failed to access camera. Please check permissions.'')\<rparr>)
       | Inr ids \<Rightarrow>
           (open_tracks ids tr,
            h\<lparr>stream := Some ids, cameraActive := True, error := None, result := None,
              selectedImage := None\<rparr>)))"

definition stopCamera :: "tracks \<times> home_state \<Rightarrow> tracks \<times> home_state" where
  "stopCamera w =
     (let (tr, h) = w;
          (tr1, h1) = (case stream h of
                         None \<Rightarrow> (tr, h)
                       | Some ids \<Rightarrow> (stop_tracks ids tr, h\<lparr>stream := None\<rparr>));
          h2 = (if cameraActive h then h1\<lparr>video_srcObject := None\<rparr> else h1)
      in (tr1, h2\<lparr>cameraActive := False\<rparr>))"

text \<open>
  \<open>capturePhoto\<close>; \<open>ctx\<close> says whether \<open>canvas.getContext('2d')\<close> gave a context,
  \<open>imageData\<close> is what \<open>canvas.toDataURL('image/jpeg')\<close> returns.
\<close>

definition capturePhoto :: "bool \<Rightarrow> string \<Rightarrow> tracks \<times> home_state \<Rightarrow> tracks \<times> home_state" where
  "capturePhoto ctx imageData w =
     (let (tr, h) = w in
      (if cameraActive h then
         (if ctx
            then stopCamera (tr, h\<lparr>selectedImage := Some imageData, imageSource := Some Camera\<rparr>)
          else (tr, h))
       else (tr, h)))"

definition resetState :: "tracks \<times> home_state \<Rightarrow> tracks \<times> home_state" where
  "resetState w =
     (let (tr, h) = w;
          h1 = h\<lparr>selectedImage := None, result := None, error := None, imageSource := None,
                 unsplashAttribution := None\<rparr>
      in (if cameraActive h then stopCamera (tr, h1) else (tr, h1)))"

text \<open>
  The effect that attaches the stream to the video element; \<open>play_fails\<close> says whether
  \<open>play()\<close> rejects. The second component is the cleanup the effect's callback returns:
  the callback returns nothing.
\<close>

definition stream_effect :: "bool \<Rightarrow> home_state \<Rightarrow> home_state \<times> (tracks \<Rightarrow> tracks) option" where
  "stream_effect play_fails h =
     (if cameraActive h \<and> stream h \<noteq> None then
        (let h1 = h\<lparr>video_srcObject := stream h\<rparr>
         in ((if play_fails then h1\<lparr>error := Some (JStr ''Failed to start video playback'')\<rparr> else h1),
             None))
      else (h, None))"

text \<open>
  Teardown of the component: React runs the cleanup of each effect and drops the state.
  The tracks belong to the browser and stay as they are left.
\<close>

definition unmount :: "tracks \<times> home_state \<Rightarrow> tracks" where
  "unmount w =
     (let (tr, h) = w in
      (case snd (stream_effect False h) of
         None \<Rightarrow> tr
       | Some cleanup \<Rightarrow> cleanup tr))"

text \<open>
  \<open>handlePredict\<close> runs in two parts, before and after its \<open>await\<close>, and other
  handlers of the page may run in between. The first part: the state it leaves, and the
  image it submits when it goes on.
\<close>

definition handlePredict_begin :: "home_state \<Rightarrow> home_state \<times> string option" where
  "handlePredict_begin h =
     (case selectedImage h of
        None \<Rightarrow> (h\<lparr>error := Some (JStr ''Please select an image first'')\<rparr>, None)
      | Some img \<Rightarrow>
          (if img = [] then (h\<lparr>error := Some (JStr ''Please select an image first'')\<rparr>, None)
           else (h\<lparr>loading := True, error := None\<rparr>, Some img)))"

text \<open>
  The rest of the \<open>try\<close>, once \<open>predictFromBase64\<close> has settled, on the state the
  page has by then.
\<close>

definition handlePredict_try :: "json outcome \<Rightarrow> home_state \<Rightarrow> home_state outcome" where
  "handlePredict_try settled h =
     (case settled of
        Inl e \<Rightarrow> Inl e
      | Inr response \<Rightarrow>
          (case get_prop response ''error'' of
             Inl e \<Rightarrow> Inl e
           | Inr None \<Rightarrow> Inr (h\<lparr>result := Some response\<rparr>)
           | Inr (Some v) \<Rightarrow>
               (if truthy v then Inr (h\<lparr>error := Some v\<rparr>)
                else Inr (h\<lparr>result := Some response\<rparr>))))"

text \<open>The second part: the \<open>try\<close>, its \<open>catch\<close> and its \<open>finally\<close>.\<close>

definition handlePredict_resume :: "json outcome \<Rightarrow> home_state \<Rightarrow> home_state" where
  "handlePredict_resume settled h =
     (let h2 = (case handlePredict_try settled h of
                  Inl e \<Rightarrow> h\<lparr>error := Some (JStr ''Failed to get prediction. Please try again.'')\<rparr>
                | Inr h' \<Rightarrow> h')
      in h2\<lparr>loading := False\<rparr>)"

text \<open>
  The whole call; \<open>between\<close> is what the other handlers do to the state while the call
  awaits.
\<close>

definition handlePredict :: "client_env \<Rightarrow> (home_state \<Rightarrow> home_state) \<Rightarrow> home_state \<Rightarrow> home_state" where
  "handlePredict env between h =
     (case handlePredict_begin h of
        (h1, None) \<Rightarrow> h1
      | (h1, Some img) \<Rightarrow> handlePredict_resume (fst (predictFromBase64 env img)) (between h1))"

section \<open>Concrete inputs\<close>

text \<open>Responses, environments and files on which the theorems below are instantiated.\<close>

definition json_response :: "nat \<Rightarrow> json \<Rightarrow> response" where
  "json_response st b =
     \<lparr>status = st, content_type = Some ''application/json'', mime_type = ''application/json'',
      body_json = Inr b, body_bytes = Inr []\<rparr>"

text \<open>A response whose body is the HTML text \<open><p>\<close>, which is no JSON.\<close>

definition html_response :: "nat \<Rightarrow> response" where
  "html_response st =
     \<lparr>status = st, content_type = Some ''text/html'', mime_type = ''text/html'',
      body_json = Inl (ErrorObject ''Unexpected token < in JSON at position 0''),
      body_bytes = Inr [0x3c, 0x70, 0x3e]\<rparr>"

definition client_answering :: "response \<Rightarrow> client_env" where
  "client_answering r =
     \<lparr>API_URL = Some ''https://api.example'', API_KEY = Some ''secret'',
      fetch = (\<lambda>req. Inr r), read_fails = (\<lambda>b. False)\<rparr>"

definition client_offline :: client_env where
  "client_offline =
     \<lparr>API_URL = Some ''https://api.example'', API_KEY = Some ''secret'',
      fetch = (\<lambda>req. Inl (ErrorObject ''Failed to fetch'')), read_fails = (\<lambda>b. False)\<rparr>"

definition png_file :: blob where
  "png_file = \<lparr>blob_type = ''image/png'', blob_bytes = [0x4d, 0x61, 0x6e]\<rparr>"

definition text_file :: blob where
  "text_file = \<lparr>blob_type = ''text/plain'', blob_bytes = [0x4d, 0x61, 0x6e]\<rparr>"

definition huge_file :: blob where
  "huge_file = \<lparr>blob_type = ''image/png'', blob_bytes = replicate (5 * 1024 * 1024 + 1) 0\<rparr>"

definition server_answering :: "response \<Rightarrow> server_env" where
  "server_answering r =
     \<lparr>NEXT_PUBLIC_API_URL = Some ''https://api.example'', NEXT_PUBLIC_API_KEY = Some ''secret'',
      UNSPLASH_ACCESS_KEY = Some ''access'', server_fetch = (\<lambda>req. Inr r)\<rparr>"

definition server_unconfigured :: server_env where
  "server_unconfigured =
     \<lparr>NEXT_PUBLIC_API_URL = None, NEXT_PUBLIC_API_KEY = None, UNSPLASH_ACCESS_KEY = None,
      server_fetch = (\<lambda>req. Inl (ErrorObject ''fetch failed''))\<rparr>"

definition server_offline :: server_env where
  "server_offline =
     \<lparr>NEXT_PUBLIC_API_URL = Some ''https://api.example'', NEXT_PUBLIC_API_KEY = Some ''secret'',
      UNSPLASH_ACCESS_KEY = Some ''access'', server_fetch = (\<lambda>req. Inl (ErrorObject ''fetch failed''))\<rparr>"






definition client_unreadable :: client_env where
  "client_unreadable =
     \<lparr>API_URL = Some ''https://api.example'', API_KEY = Some ''secret'',
      fetch = (\<lambda>req. Inl (ErrorObject ''Failed to fetch'')), read_fails = (\<lambda>b. True)\<rparr>"

text \<open>A state in which an image has been selected and nothing else has happened.\<close>

definition image_selected :: home_state where
  "image_selected = initial_state\<lparr>selectedImage := Some ''data:image/png;base64,TWFu''\<rparr>"

definition golden :: json where
  "golden = JObj [(''label'', JStr ''golden-retriever''), (''confidence'', JNum ''0.95'')]"

text \<open>A 2xx body that carries both an error and predictions, and one that carries predictions only.\<close>

definition both_json :: json where
  "both_json = JObj [(''error'', JStr ''No dog found''), (''predictions'', JArr [golden])]"

definition predictions_json :: json where
  "predictions_json = JObj [(''predictions'', JArr [golden])]"

text \<open>
  What the page does to its state when, while a prediction is awaited, the image is removed
  (\<open>resetState\<close>) and the camera is asked for and refused (\<open>startCamera\<close>).
\<close>

definition camera_refused :: "home_state \<Rightarrow> home_state" where
  "camera_refused h =
     snd (startCamera (Inl (ErrorObject ''Permission denied'')) (resetState (Map.empty, h)))"

text \<open>A world in which every \<open>fetch\<close> is rejected with the value \<open>e\<close>.\<close>

definition client_rejecting :: "thrown \<Rightarrow> client_env" where
  "client_rejecting e =
     \<lparr>API_URL = Some ''https://api.example'', API_KEY = Some ''secret'',
      fetch = (\<lambda>req. Inl e), read_fails = (\<lambda>b. False)\<rparr>"

text \<open>A 2xx response whose \<open>json()\<close> settles as \<open>j\<close>.\<close>

definition settled_response :: "json outcome \<Rightarrow> response" where
  "settled_response j =
     \<lparr>status = 200, content_type = Some ''application/json'', mime_type = ''application/json'',
      body_json = j, body_bytes = Inr []\<rparr>"

text \<open>The camera session opened on a fresh page, with one video track, once the effect has run.\<close>

definition camera_session :: "tracks \<times> home_state" where
  "camera_session = startCamera (Inr [0]) (Map.empty, initial_state)"

definition camera_attached :: "tracks \<times> home_state" where
  "camera_attached = (fst camera_session, fst (stream_effect False (snd camera_session)))"

definition image_body :: "json outcome" where
  "image_body = Inr (JObj [(''image'', JStr ''data:image/png;base64,TWFu'')])"

definition invalid_image_json :: json where
  "invalid_image_json = JObj [(''error'', JStr ''Invalid image''), (''detail'', JStr ''too small'')]"

section \<open>Auxiliary facts\<close>

subsection \<open>Values\<close>

lemma startsWith_iff: "startsWith s p \<longleftrightarrow> (\<exists>t. s = p @ t)"
proof
  assume "startsWith s p"
  then have "s = p @ drop (length p) s"
    by (metis append_take_drop_id startsWith_def)
  then show "\<exists>t. s = p @ t" ..
next
  assume "\<exists>t. s = p @ t"
  then show "startsWith s p"
    by (auto simp: startsWith_def)
qed

text \<open>Rendering throws nothing but the one \<open>TypeError\<close>.\<close>

lemma to_string_thrown:
  "to_string v = Inl t \<Longrightarrow> t = ErrorObject ''Cannot convert object to primitive value''"
  "join_elements vs = Inl t \<Longrightarrow> t = ErrorObject ''Cannot convert object to primitive value''"
  by (induction v and vs rule: to_string_join_elements.induct)
     (auto split: if_splits sum.splits)

lemma to_string_object:
  "to_string (JObj kvs) = Inr m \<longleftrightarrow> map_of kvs ''toString'' = None \<and> m = ''[object Object]''"
  by auto

lemma number_to_string_429: "number_to_string 429 = ''429''"
  by (simp add: number_to_string.simps digit_char_def)

lemma number_to_string_500: "number_to_string 500 = ''500''"
  by (simp add: number_to_string.simps digit_char_def)

lemma base64_Man: "base64 [0x4d, 0x61, 0x6e] = ''TWFu''"
  by (simp add: b64_char_def b64_alphabet_def)

subsection \<open>The requests\<close>

lemma relay_request_eq:
  "relay_request imageBase64 =
     \<lparr>req_url = ''/api/predict'', req_method = ''POST'',
      req_headers = [(''Content-Type'', ''application/json'')],
      req_body = Some (JObj [(''image'', JStr imageBase64)])\<rparr>"
  by (simp add: relay_request_def)

lemma predict_request_eq:
  "API_URL env = Some u \<Longrightarrow> API_KEY env = Some k \<Longrightarrow>
   predict_request env imageBase64 =
     \<lparr>req_url = u @ ''/predict'', req_method = ''POST'',
      req_headers = [(''Content-Type'', ''application/json''), (''X-API-Key'', k)],
      req_body = Some (JObj [(''image'', JStr imageBase64)])\<rparr>"
  by (simp add: predict_request_def)

lemma forward_request_eq:
  "NEXT_PUBLIC_API_URL env = Some u \<Longrightarrow> NEXT_PUBLIC_API_KEY env = Some k \<Longrightarrow>
   forward_request env img =
     \<lparr>req_url = u @ ''/predict'', req_method = ''POST'',
      req_headers = [(''Content-Type'', ''application/json''), (''X-API-Key'', k)],
      req_body = Some (JObj [(''image'', img)])\<rparr>"
  by (simp add: forward_request_def)

lemma unsplash_request_eq:
  "UNSPLASH_ACCESS_KEY env = Some k \<Longrightarrow>
   unsplash_request env =
     \<lparr>req_url = ''https://api.unsplash.com/photos/random?query=dog&client_id='' @ k,
      req_method = ''GET'', req_headers = [(''Accept-Version'', ''v1'')], req_body = None\<rparr>"
  by (simp add: unsplash_request_def)

subsection \<open>The API client\<close>

lemma fst_predictPaw:
  "fst (predictPaw env imageFile) =
     try_catch (fst (predictPaw_try env imageFile)) (\<lambda>e. Inr (catch_to_result e))"
  by (simp add: predictPaw_def split: prod.splits)


lemma fst_predictFromBase64:
  "fst (predictFromBase64 env imageBase64) =
     try_catch (fst (predictFromBase64_try env imageBase64)) (\<lambda>e. Inr (catch_to_result e))"
  by (simp add: predictFromBase64_def split: prod.splits)

lemma caught:
  "try_catch (Inl (ErrorObject m)) (\<lambda>e. Inr (catch_to_result e)) = Inr (JObj [(''error'', JStr m)])"
  "try_catch (Inl OtherValue) (\<lambda>e. Inr (catch_to_result e))
     = Inr (JObj [(''error'', JStr ''An unexpected error occurred'')])"
  "try_catch (Inr v) (\<lambda>e. Inr (catch_to_result e)) = Inr v"
  by (simp_all add: try_catch_def)

lemma try_catch_result: "\<exists>v. try_catch res (\<lambda>e. Inr (catch_to_result e)) = Inr v"
  by (cases res) (simp_all add: try_catch_def)

lemma fileToBase64_image:
  "startsWith (blob_type f) ''image/'' \<Longrightarrow>
   fileToBase64 env f =
     (if read_fails env f then Inl OtherValue else Inr (data_url (blob_type f) (blob_bytes f)))"
  by (auto simp: fileToBase64_def startsWith_def)

text \<open>What is thrown on a response that is not ok, case by case.\<close>

lemma throw_http_error_unparseable:
  "body_json r = Inl e \<Longrightarrow> throw_http_error r = ErrorObject ''Unknown error''"
  by (simp add: throw_http_error_def errorData_of_def)

lemma throw_http_error_null:
  "body_json r = Inr JNull \<Longrightarrow>
   throw_http_error r
     = ErrorObject (''Cannot read properties of null (reading '' @ [CHR 0x27] @ ''error'' @ [CHR 0x27] @ '')'')"
  by (simp add: throw_http_error_def errorData_of_def)

lemma throw_http_error_field:
  "body_json r = Inr (JObj kvs) \<Longrightarrow> map_of kvs ''error'' = Some v \<Longrightarrow> truthy v \<Longrightarrow>
   to_string v = Inr m \<Longrightarrow> throw_http_error r = ErrorObject m"
  by (simp add: throw_http_error_def errorData_of_def)

lemma throw_http_error_unrenderable:
  "body_json r = Inr (JObj kvs) \<Longrightarrow> map_of kvs ''error'' = Some v \<Longrightarrow> truthy v \<Longrightarrow>
   to_string v = Inl t \<Longrightarrow>
   throw_http_error r = ErrorObject ''Cannot convert object to primitive value''"
  using to_string_thrown(1) [of v t] by (simp add: throw_http_error_def errorData_of_def)

lemma throw_http_error_generic:
  "body_json r = Inr b \<Longrightarrow> b \<noteq> JNull \<Longrightarrow> \<not> truthy_opt (prop_of b ''error'') \<Longrightarrow>
   throw_http_error r = ErrorObject (''HTTP error! status: '' @ number_to_string (status r))"
  by (cases b; cases "prop_of b ''error''") (simp_all add: throw_http_error_def errorData_of_def prop_of_def)

lemma http_thrown:
  "(body_json r = Inl x \<and> m = ''Unknown error'')
    \<or> (body_json r = Inr (JObj kvs) \<and> map_of kvs ''error'' = Some w \<and> truthy w \<and> to_string w = Inr m)
    \<or> (body_json r = Inr b \<and> b \<noteq> JNull \<and> \<not> truthy_opt (prop_of b ''error'')
        \<and> m = ''HTTP error! status: '' @ number_to_string (status r))
    \<or> (body_json r = Inr JNull
        \<and> m = ''Cannot read properties of null (reading '' @ [CHR 0x27] @ ''error'' @ [CHR 0x27] @ '')'')
    \<or> (body_json r = Inr (JObj kvs) \<and> map_of kvs ''error'' = Some w \<and> truthy w \<and> to_string w = Inl t
        \<and> m = ''Cannot convert object to primitive value'')
   \<Longrightarrow> throw_http_error r = ErrorObject m"
  using throw_http_error_unparseable [of r x] throw_http_error_field [of r kvs w m]
    throw_http_error_generic [of r b] throw_http_error_null [of r]
    throw_http_error_unrenderable [of r kvs w t]
  by blast

lemma predictFromBase64_rejected:
  "fetch env (relay_request img) = Inl e \<Longrightarrow>
   fst (predictFromBase64 env img) = Inr (catch_to_result e)"
  by (simp add: fst_predictFromBase64 predictFromBase64_try_def try_catch_def Let_def)

lemma predictFromBase64_fetched:
  "fetch env (relay_request img) = Inr r \<Longrightarrow>
   fst (predictFromBase64 env img)
     = try_catch (predictFromBase64_response r) (\<lambda>e. Inr (catch_to_result e))"
  by (simp add: fst_predictFromBase64 predictFromBase64_try_def Let_def)

lemma predictFromBase64_not_ok:
  "fetch env (relay_request img) = Inr r \<Longrightarrow> \<not> ok r \<Longrightarrow>
   fst (predictFromBase64 env img) = Inr (catch_to_result (throw_http_error r))"
  by (simp add: predictFromBase64_fetched predictFromBase64_response_def try_catch_def)

lemma predictFromBase64_ok:
  "fetch env (relay_request img) = Inr r \<Longrightarrow> ok r \<Longrightarrow>
   fst (predictFromBase64 env img) = try_catch (body_json r) (\<lambda>e. Inr (catch_to_result e))"
  by (simp add: predictFromBase64_fetched predictFromBase64_response_def)

lemma predictPaw_unreadable:
  "startsWith (blob_type f) ''image/'' \<Longrightarrow> blob_size f \<le> 5 * 1024 * 1024 \<Longrightarrow>
   fileToBase64 env f = Inl e \<Longrightarrow> fst (predictPaw env f) = Inr (catch_to_result e)"
  by (simp add: fst_predictPaw predictPaw_try_def maxSize_def try_catch_def)

lemma predictPaw_rejected:
  "startsWith (blob_type f) ''image/'' \<Longrightarrow> blob_size f \<le> 5 * 1024 * 1024 \<Longrightarrow>
   fileToBase64 env f = Inr b64 \<Longrightarrow> fetch env (predict_request env b64) = Inl e \<Longrightarrow>
   fst (predictPaw env f) = Inr (catch_to_result e)"
  by (simp add: fst_predictPaw predictPaw_try_def maxSize_def try_catch_def Let_def)

lemma predictPaw_fetched:
  "startsWith (blob_type f) ''image/'' \<Longrightarrow> blob_size f \<le> 5 * 1024 * 1024 \<Longrightarrow>
   fileToBase64 env f = Inr b64 \<Longrightarrow> fetch env (predict_request env b64) = Inr r \<Longrightarrow>
   fst (predictPaw env f) = try_catch (predictPaw_response r) (\<lambda>e. Inr (catch_to_result e))"
  by (simp add: fst_predictPaw predictPaw_try_def maxSize_def Let_def)

lemma not_ok_429: "status r = 429 \<Longrightarrow> \<not> ok r"
  by (simp add: ok_def)

subsection \<open>The concrete inputs\<close>

lemma png_passes:
  "startsWith (blob_type png_file) ''image/''" "\<not> blob_size png_file > maxSize"
  by (simp_all add: startsWith_def png_file_def blob_size_def maxSize_def)

lemma png_small: "blob_size png_file \<le> 5 * 1024 * 1024"
  by (simp add: png_file_def blob_size_def)

lemma png_data_url:
  "fileToBase64 env png_file =
     (if read_fails env png_file then Inl OtherValue else Inr ''data:image/png;base64,TWFu'')"
  by (simp add: fileToBase64_def png_file_def data_url_def b64_char_def b64_alphabet_def)

lemma huge_size: "blob_size huge_file = 5 * 1024 * 1024 + 1"
  by (simp add: huge_file_def blob_size_def)

lemma relay_answer:
  "fetch (client_answering r) req = Inr r"
  by (simp add: client_answering_def)

lemma png_answering:
  "fileToBase64 (client_answering r) png_file = Inr ''data:image/png;base64,TWFu''"
  by (simp add: png_data_url) (simp add: client_answering_def)

lemma server_answer: "server_fetch (server_answering r) req = Inr r"
  by (simp add: server_answering_def)

lemma server_answering_configured:
  "env_truthy (NEXT_PUBLIC_API_URL (server_answering r))"
  "env_truthy (NEXT_PUBLIC_API_KEY (server_answering r))"
  "env_truthy (UNSPLASH_ACCESS_KEY (server_answering r))"
  by (simp_all add: server_answering_def)

lemma png_size: "blob_size png_file = 3"
  by (simp add: png_file_def blob_size_def)

lemma text_not_image: "\<not> startsWith (blob_type text_file) ''image/''"
  by (simp add: text_file_def startsWith_def)

lemma huge_image: "startsWith (blob_type huge_file) ''image/''"
  by (simp add: huge_file_def startsWith_def)

lemma unreadable: "read_fails client_unreadable b"
  by (simp add: client_unreadable_def)

lemma offline:
  "fetch client_offline req = Inl (ErrorObject ''Failed to fetch'')" "\<not> read_fails client_offline b"
  by (simp_all add: client_offline_def)

lemma rejecting:
  "fetch (client_rejecting e) req = Inl e" "\<not> read_fails (client_rejecting e) b"
  by (simp_all add: client_rejecting_def)

lemma answering:
  "fetch (client_answering r) req = Inr r" "\<not> read_fails (client_answering r) b"
  by (simp_all add: client_answering_def)

subsection \<open>The camera\<close>

lemma fold_stop_ends:
  "i \<in> set ids \<or> t i = Some Ended \<Longrightarrow> fold (\<lambda>i t. t(i \<mapsto> Ended)) ids t i = Some Ended"
  by (induction ids arbitrary: t) auto

lemma stop_tracks_ends: "i \<in> set ids \<Longrightarrow> stop_tracks ids tr i = Some Ended"
  by (simp add: stop_tracks_def fold_stop_ends)

text \<open>Cancelling ends every track of the stream the page holds.\<close>

lemma stopCamera_ends_tracks:
  "stream h = Some ids \<Longrightarrow> i \<in> set ids \<Longrightarrow> fst (stopCamera (tr, h)) i = Some Ended"
  by (simp add: stopCamera_def stop_tracks_ends)

text \<open>So does a capture that succeeds.\<close>

lemma capturePhoto_ends_tracks:
  "cameraActive h \<Longrightarrow> stream h = Some ids \<Longrightarrow> i \<in> set ids \<Longrightarrow>
   fst (capturePhoto True imageData (tr, h)) i = Some Ended"
  by (simp add: capturePhoto_def stopCamera_def stop_tracks_ends)

text \<open>Teardown changes no track.\<close>

lemma unmount_keeps_tracks: "unmount (tr, h) = tr"
  by (simp add: unmount_def stream_effect_def Let_def)

subsection \<open>The predict relay\<close>

lemma NextResponse_json_500 [simp]:
  "NextResponse_json b 500 = Inr \<lparr>reply_status = 500, reply_body = b\<rparr>"
  by (simp add: NextResponse_json_def)

lemma NextResponse_json_400 [simp]:
  "NextResponse_json b 400 = Inr \<lparr>reply_status = 400, reply_body = b\<rparr>"
  by (simp add: NextResponse_json_def)

lemma NextResponse_json_502 [simp]:
  "NextResponse_json b 502 = Inr \<lparr>reply_status = 502, reply_body = b\<rparr>"
  by (simp add: NextResponse_json_def)

lemma NextResponse_json_200 [simp]:
  "NextResponse_json b 200 = Inr \<lparr>reply_status = 200, reply_body = b\<rparr>"
  by (simp add: NextResponse_json_def)

lemma NextResponse_json_error_status:
  "300 \<le> st \<Longrightarrow> st \<le> 599 \<Longrightarrow> st \<noteq> 304 \<Longrightarrow>
   NextResponse_json b st = Inr \<lparr>reply_status = st, reply_body = b\<rparr>"
  by (simp add: NextResponse_json_def)

lemma NextResponse_json_throws:
  "st < 200 \<or> 599 < st \<or> st = 304 \<Longrightarrow> \<exists>e. NextResponse_json b st = Inl e"
  by (auto simp: NextResponse_json_def)

lemma internal_error:
  "try_catch (Inl e) (\<lambda>e. NextResponse_json (error_body ''Internal server error'') 500)
     = Inr \<lparr>reply_status = 500, reply_body = JObj [(''error'', JStr ''Internal server error'')]\<rparr>"
  by (simp add: try_catch_def error_body_def)

lemma fst_POST:
  "fst (POST env body) =
     try_catch (fst (POST_try env body)) (\<lambda>e. NextResponse_json (error_body ''Internal server error'') 500)"
  by (simp add: POST_def split: prod.splits)

lemma snd_POST: "snd (POST env body) = snd (POST_try env body)"
  by (simp add: POST_def split: prod.splits)

lemma POST_eq: "POST env body = (fst (POST env body), snd (POST_try env body))"
  by (simp add: POST_def split: prod.splits)

lemma destructure_image_prop: "b \<noteq> JNull \<Longrightarrow> destructure_image b = Inr (prop_of b ''image'')"
  by (cases b) (simp_all add: prop_of_def)

lemma POST_unparseable_body:
  "env_truthy (NEXT_PUBLIC_API_URL env) \<Longrightarrow> env_truthy (NEXT_PUBLIC_API_KEY env) \<Longrightarrow>
   POST env (Inl x)
     = (Inr \<lparr>reply_status = 500, reply_body = JObj [(''error'', JStr ''Internal server error'')]\<rparr>, [])"
  by (simp add: POST_def POST_try_def try_catch_def error_body_def)

lemma POST_null_body:
  "env_truthy (NEXT_PUBLIC_API_URL env) \<Longrightarrow> env_truthy (NEXT_PUBLIC_API_KEY env) \<Longrightarrow>
   POST env (Inr JNull)
     = (Inr \<lparr>reply_status = 500, reply_body = JObj [(''error'', JStr ''Internal server error'')]\<rparr>, [])"
  by (simp add: POST_def POST_try_def try_catch_def error_body_def)

lemma POST_no_image:
  "env_truthy (NEXT_PUBLIC_API_URL env) \<Longrightarrow> env_truthy (NEXT_PUBLIC_API_KEY env) \<Longrightarrow>
   b \<noteq> JNull \<Longrightarrow> \<not> truthy_opt (prop_of b ''image'') \<Longrightarrow>
   POST env (Inr b)
     = (Inr \<lparr>reply_status = 400, reply_body = JObj [(''error'', JStr ''No image provided'')]\<rparr>, [])"
  by (cases "prop_of b ''image''")
     (simp_all add: POST_def POST_try_def try_catch_def error_body_def destructure_image_prop)

lemma POST_forwarded:
  assumes "env_truthy (NEXT_PUBLIC_API_URL env)" "env_truthy (NEXT_PUBLIC_API_KEY env)"
    and "body = Inr (JObj kvs)" "map_of kvs ''image'' = Some img" "truthy img"
  shows "snd (POST env body) = [Fetch (forward_request env img)]"
    and "server_fetch env (forward_request env img) = Inr r \<Longrightarrow>
         fst (POST env body) =
           try_catch (POST_response r) (\<lambda>e. NextResponse_json (error_body ''Internal server error'') 500)"
    and "server_fetch env (forward_request env img) = Inl y \<Longrightarrow>
         fst (POST env body)
           = Inr \<lparr>reply_status = 500, reply_body = JObj [(''error'', JStr ''Internal server error'')]\<rparr>"
  using assms
  by (simp_all add: snd_POST fst_POST POST_try_def Let_def try_catch_def error_body_def split: sum.splits)

lemma POST_response_ok:
  "ok r \<Longrightarrow> body_json r = Inr d \<Longrightarrow> POST_response r = Inr \<lparr>reply_status = 200, reply_body = d\<rparr>"
  by (simp add: POST_response_def)

lemma POST_response_ok_unparseable:
  "ok r \<Longrightarrow> body_json r = Inl z \<Longrightarrow> POST_response r = Inl z"
  by (simp add: POST_response_def)

lemma POST_response_null:
  "\<not> ok r \<Longrightarrow> body_json r = Inr JNull \<Longrightarrow> \<exists>e. POST_response r = Inl e"
  by (simp add: POST_response_def errorData_of_def)

text \<open>The body the relay builds on an answer that is not ok, before the status is attached.\<close>

lemma POST_response_rebuilt:
  assumes "\<not> ok r"
    and "(body_json r = Inr (JObj ekvs) \<and> map_of ekvs ''error'' = Some e \<and> truthy e \<and> E = e)
         \<or> (body_json r = Inl z \<and> E = JStr ''Unknown error'')
         \<or> (body_json r = Inr b \<and> b \<noteq> JNull \<and> \<not> truthy_opt (prop_of b ''error'')
             \<and> E = JStr (''API error: '' @ number_to_string (status r)))"
  shows "POST_response r = NextResponse_json (JObj [(''error'', E)]) (status r)"
proof -
  from assms(2) consider
      (field) "body_json r = Inr (JObj ekvs)" "map_of ekvs ''error'' = Some e" "truthy e" "E = e"
    | (unparseable) "body_json r = Inl z" "E = JStr ''Unknown error''"
    | (generic) "body_json r = Inr b" "b \<noteq> JNull" "\<not> truthy_opt (prop_of b ''error'')"
        "E = JStr (''API error: '' @ number_to_string (status r))"
    by blast
  then show ?thesis
  proof cases
    case field
    with assms(1) show ?thesis by (simp add: POST_response_def errorData_of_def)
  next
    case unparseable
    with assms(1) show ?thesis by (simp add: POST_response_def errorData_of_def)
  next
    case generic
    with assms(1) show ?thesis
      by (cases b; cases "prop_of b ''error''")
         (simp_all add: POST_response_def errorData_of_def prop_of_def)
  qed
qed

lemma POST_response_field:
  "300 \<le> status r \<Longrightarrow> status r \<le> 599 \<Longrightarrow> status r \<noteq> 304 \<Longrightarrow>
   body_json r = Inr (JObj ekvs) \<Longrightarrow> map_of ekvs ''error'' = Some e \<Longrightarrow> truthy e \<Longrightarrow>
   POST_response r = Inr \<lparr>reply_status = status r, reply_body = JObj [(''error'', e)]\<rparr>"
  by (simp add: POST_response_def ok_def errorData_of_def NextResponse_json_error_status)

subsection \<open>The random-image relay\<close>























section \<open>The claims\<close>

text \<open>
  C1, as amended. In direct mode a response with status 429 gives exactly the error "Too
  many requests. Please try again later.", whatever its body is. In relayed mode status 429
  has no case of its own and the body decides: the error is the body's \<open>error\<close> field,
  rendered as a string, when the body is an object whose \<open>error\<close> field is truthy and
  can be rendered; "Unknown error" when the body is no JSON; "HTTP error! status: 429" when
  the body is JSON other than \<open>null\<close> whose \<open>error\<close> field is absent or falsy; and
  the message of the \<open>TypeError\<close> that is thrown when the body is \<open>null\<close> or when
  the truthy \<open>error\<close> field cannot be rendered.
\<close>

theorem rate_limit_message:
  "(startsWith (blob_type f) ''image/'' \<and> blob_size f \<le> 5 * 1024 * 1024
     \<and> fileToBase64 env f = Inr b64 \<and> fetch env (predict_request env b64) = Inr r
     \<and> status r = 429 \<longrightarrow>
      fst (predictPaw env f) = Inr (JObj [(''error'', JStr ''Too many requests. Please try again later.'')]))
   \<and> (fetch env (relay_request img) = Inr r \<and> status r = 429 \<longrightarrow>
        (body_json r = Inr (JObj kvs) \<and> map_of kvs ''error'' = Some v \<and> truthy v \<longrightarrow>
           (to_string v = Inr m \<longrightarrow>
              fst (predictFromBase64 env img) = Inr (JObj [(''error'', JStr m)]))
           \<and> (to_string v = Inl t \<longrightarrow>
                fst (predictFromBase64 env img)
                  = Inr (JObj [(''error'', JStr ''Cannot convert object to primitive value'')])))
        \<and> (body_json r = Inl e \<longrightarrow>
           fst (predictFromBase64 env img) = Inr (JObj [(''error'', JStr ''Unknown error'')]))
        \<and> (body_json r = Inr b \<and> b \<noteq> JNull \<and> \<not> truthy_opt (prop_of b ''error'') \<longrightarrow>
           fst (predictFromBase64 env img) = Inr (JObj [(''error'', JStr ''HTTP error! status: 429'')]))
        \<and> (body_json r = Inr JNull \<longrightarrow>
           fst (predictFromBase64 env img)
             = Inr (JObj [(''error'',
                           JStr (''Cannot read properties of null (reading '' @ [CHR 0x27] @ ''error''
                                 @ [CHR 0x27] @ '')''))])))"
proof (intro conjI impI)
  assume d: "startsWith (blob_type f) ''image/'' \<and> blob_size f \<le> 5 * 1024 * 1024
     \<and> fileToBase64 env f = Inr b64 \<and> fetch env (predict_request env b64) = Inr r
     \<and> status r = 429"
  then have "predictPaw_response r = Inl (ErrorObject ''Too many requests. Please try again later.'')"
    by (simp add: predictPaw_response_def)
  with d show "fst (predictPaw env f)
      = Inr (JObj [(''error'', JStr ''Too many requests. Please try again later.'')])"
    using predictPaw_fetched [of f env b64 r] by (simp add: try_catch_def)
next
  assume a: "fetch env (relay_request img) = Inr r \<and> status r = 429"
     and b: "body_json r = Inr (JObj kvs) \<and> map_of kvs ''error'' = Some v \<and> truthy v"
     and c: "to_string v = Inr m"
  from a have "fst (predictFromBase64 env img) = Inr (catch_to_result (throw_http_error r))"
    using predictFromBase64_not_ok [of env img r] not_ok_429 [of r] by blast
  with b c show "fst (predictFromBase64 env img) = Inr (JObj [(''error'', JStr m)])"
    using throw_http_error_field [of r kvs v m] by simp
next
  assume a: "fetch env (relay_request img) = Inr r \<and> status r = 429"
     and b: "body_json r = Inr (JObj kvs) \<and> map_of kvs ''error'' = Some v \<and> truthy v"
     and c: "to_string v = Inl t"
  from a have "fst (predictFromBase64 env img) = Inr (catch_to_result (throw_http_error r))"
    using predictFromBase64_not_ok [of env img r] not_ok_429 [of r] by blast
  with b c show "fst (predictFromBase64 env img)
      = Inr (JObj [(''error'', JStr ''Cannot convert object to primitive value'')])"
    using throw_http_error_unrenderable [of r kvs v t] by simp
next
  assume a: "fetch env (relay_request img) = Inr r \<and> status r = 429"
     and b: "body_json r = Inl e"
  from a have "fst (predictFromBase64 env img) = Inr (catch_to_result (throw_http_error r))"
    using predictFromBase64_not_ok [of env img r] not_ok_429 [of r] by blast
  with b show "fst (predictFromBase64 env img) = Inr (JObj [(''error'', JStr ''Unknown error'')])"
    using throw_http_error_unparseable [of r e] by simp
next
  assume a: "fetch env (relay_request img) = Inr r \<and> status r = 429"
     and b: "body_json r = Inr b \<and> b \<noteq> JNull \<and> \<not> truthy_opt (prop_of b ''error'')"
  from a have "fst (predictFromBase64 env img) = Inr (catch_to_result (throw_http_error r))"
    using predictFromBase64_not_ok [of env img r] not_ok_429 [of r] by blast
  with a b show "fst (predictFromBase64 env img) = Inr (JObj [(''error'', JStr ''HTTP error! status: 429'')])"
    using throw_http_error_generic [of r b] by (simp add: number_to_string_429)
next
  assume a: "fetch env (relay_request img) = Inr r \<and> status r = 429"
     and b: "body_json r = Inr JNull"
  from a have "fst (predictFromBase64 env img) = Inr (catch_to_result (throw_http_error r))"
    using predictFromBase64_not_ok [of env img r] not_ok_429 [of r] by blast
  with b show "fst (predictFromBase64 env img)
             = Inr (JObj [(''error'',
                           JStr (''Cannot read properties of null (reading '' @ [CHR 0x27] @ ''error''
                                 @ [CHR 0x27] @ '')''))])"
    using throw_http_error_null [of r] by simp
qed

theorem rate_limit_message_witness:
  "fst (predictPaw (client_answering (json_response 429 (JObj [(''error'', JStr ''Rate limit exceeded'')])))
         png_file)
     = Inr (JObj [(''error'', JStr ''Too many requests. Please try again later.'')])
   \<and> fst (predictFromBase64
            (client_answering (json_response 429 (JObj [(''error'', JStr ''Rate limit exceeded'')])))
            ''data:image/png;base64,TWFu'')
     = Inr (JObj [(''error'', JStr ''Rate limit exceeded'')])
   \<and> fst (predictFromBase64
            (client_answering (json_response 429 (JObj [(''error'', JObj [(''toString'', JNum ''1'')])])))
            ''data:image/png;base64,TWFu'')
     = Inr (JObj [(''error'', JStr ''Cannot convert object to primitive value'')])
   \<and> fst (predictFromBase64 (client_answering (html_response 429)) ''data:image/png;base64,TWFu'')
     = Inr (JObj [(''error'', JStr ''Unknown error'')])
   \<and> fst (predictFromBase64 (client_answering (json_response 429 (JObj []))) ''data:image/png;base64,TWFu'')
     = Inr (JObj [(''error'', JStr ''HTTP error! status: 429'')])
   \<and> fst (predictFromBase64 (client_answering (json_response 429 JNull)) ''data:image/png;base64,TWFu'')
     = Inr (JObj [(''error'',
                   JStr (''Cannot read properties of null (reading '' @ [CHR 0x27] @ ''error''
                         @ [CHR 0x27] @ '')''))])"
proof -
  let ?img = "''data:image/png;base64,TWFu''"
  let ?kvs = "[(''error'', JStr ''Rate limit exceeded'')]"
  let ?obj = "JObj [(''toString'', JNum ''1'')]"
  let ?x = "ErrorObject ''Unexpected token < in JSON at position 0''"
  let ?r1 = "json_response 429 (JObj ?kvs)"
  let ?r2 = "html_response 429"
  let ?r3 = "json_response 429 (JObj [])"
  let ?r4 = "json_response 429 JNull"
  let ?r5 = "json_response 429 (JObj [(''error'', ?obj)])"
  have h1: "status ?r1 = 429 \<and> body_json ?r1 = Inr (JObj ?kvs)
            \<and> map_of ?kvs ''error'' = Some (JStr ''Rate limit exceeded'')
            \<and> truthy (JStr ''Rate limit exceeded'')
            \<and> to_string (JStr ''Rate limit exceeded'') = Inr ''Rate limit exceeded''"
    by (simp add: json_response_def)
  have h2: "status ?r2 = 429 \<and> body_json ?r2 = Inl ?x"
    by (simp add: html_response_def)
  have h3: "status ?r3 = 429 \<and> body_json ?r3 = Inr (JObj []) \<and> JObj [] \<noteq> JNull
            \<and> \<not> truthy_opt (prop_of (JObj []) ''error'')"
    by (simp add: json_response_def prop_of_def)
  have h4: "status ?r4 = 429 \<and> body_json ?r4 = Inr JNull"
    by (simp add: json_response_def)
  have h5: "status ?r5 = 429 \<and> body_json ?r5 = Inr (JObj [(''error'', ?obj)])
            \<and> map_of [(''error'', ?obj)] ''error'' = Some ?obj \<and> truthy ?obj
            \<and> to_string ?obj = Inl (ErrorObject ''Cannot convert object to primitive value'')"
    by (simp add: json_response_def)
  from rate_limit_message [where f = png_file and env = "client_answering ?r1" and ?b64.0 = ?img
      and r = ?r1 and img = ?img and kvs = ?kvs and v = "JStr ''Rate limit exceeded''"
      and m = "''Rate limit exceeded''"]
    h1 relay_answer [of ?r1] png_passes(1) png_small png_answering [of ?r1]
  have c1: "fst (predictPaw (client_answering ?r1) png_file)
              = Inr (JObj [(''error'', JStr ''Too many requests. Please try again later.'')])
            \<and> fst (predictFromBase64 (client_answering ?r1) ?img)
              = Inr (JObj [(''error'', JStr ''Rate limit exceeded'')])"
    by blast
  from rate_limit_message [where env = "client_answering ?r2" and r = ?r2 and img = ?img and e = ?x]
    h2 relay_answer [of ?r2]
  have c2: "fst (predictFromBase64 (client_answering ?r2) ?img)
              = Inr (JObj [(''error'', JStr ''Unknown error'')])"
    by blast
  from rate_limit_message [where env = "client_answering ?r3" and r = ?r3 and img = ?img and b = "JObj []"]
    h3 relay_answer [of ?r3]
  have c3: "fst (predictFromBase64 (client_answering ?r3) ?img)
              = Inr (JObj [(''error'', JStr ''HTTP error! status: 429'')])"
    by blast
  from rate_limit_message [where env = "client_answering ?r4" and r = ?r4 and img = ?img]
    h4 relay_answer [of ?r4]
  have c4: "fst (predictFromBase64 (client_answering ?r4) ?img)
     = Inr (JObj [(''error'',
                   JStr (''Cannot read properties of null (reading '' @ [CHR 0x27] @ ''error''
                         @ [CHR 0x27] @ '')''))])"
    by blast
  from rate_limit_message [where env = "client_answering ?r5" and r = ?r5 and img = ?img
      and kvs = "[(''error'', ?obj)]" and v = ?obj
      and t = "ErrorObject ''Cannot convert object to primitive value''"]
    h5 relay_answer [of ?r5]
  have c5: "fst (predictFromBase64 (client_answering ?r5) ?img)
              = Inr (JObj [(''error'', JStr ''Cannot convert object to primitive value'')])"
    by blast
  from c1 c2 c3 c4 c5 show ?thesis by blast
qed

theorem rate_limit_message_counterexample:
  "status (json_response 429 (JObj [(''error'', JStr ''Rate limit exceeded'')])) = 429
   \<and> fst (POST (server_answering (json_response 429 (JObj [(''error'', JStr ''Rate limit exceeded'')])))
            image_body)
       = Inr \<lparr>reply_status = 429, reply_body = JObj [(''error'', JStr ''Rate limit exceeded'')]\<rparr>
   \<and> fetch (client_answering (json_response 429 (JObj [(''error'', JStr ''Rate limit exceeded'')])))
         (relay_request ''data:image/png;base64,TWFu'')
       = Inr (json_response 429 (JObj [(''error'', JStr ''Rate limit exceeded'')]))
   \<and> fst (predictFromBase64
            (client_answering (json_response 429 (JObj [(''error'', JStr ''Rate limit exceeded'')])))
            ''data:image/png;base64,TWFu'')
       = Inr (JObj [(''error'', JStr ''Rate limit exceeded'')])
   \<and> fst (predictFromBase64
            (client_answering (json_response 429 (JObj [(''error'', JStr ''Rate limit exceeded'')])))
            ''data:image/png;base64,TWFu'')
       \<noteq> Inr (JObj [(''error'', JStr ''Too many requests. Please try again later.'')])"
proof -
  let ?r = "json_response 429 (JObj [(''error'', JStr ''Rate limit exceeded'')])"
  have s: "status ?r = 429"
    by (simp add: json_response_def)
  have b: "body_json ?r = Inr (JObj [(''error'', JStr ''Rate limit exceeded'')])"
    by (simp add: json_response_def)
  have c: "fst (predictFromBase64 (client_answering ?r) ''data:image/png;base64,TWFu'')
       = Inr (JObj [(''error'', JStr ''Rate limit exceeded'')])"
    using predictFromBase64_not_ok [OF relay_answer not_ok_429 [OF s]]
      throw_http_error_field [OF b, of "JStr ''Rate limit exceeded''" "''Rate limit exceeded''"]
    by simp
  have p: "POST_response ?r
       = Inr \<lparr>reply_status = status ?r, reply_body = JObj [(''error'', JStr ''Rate limit exceeded'')]\<rparr>"
    by (rule POST_response_field [OF _ _ _ b]) (simp_all add: s)
  have d: "fst (POST (server_answering ?r) image_body)
       = Inr \<lparr>reply_status = 429, reply_body = JObj [(''error'', JStr ''Rate limit exceeded'')]\<rparr>"
    using POST_forwarded(2) [OF server_answering_configured(1,2) _ _ _ server_answer, of image_body
        "[(''image'', JStr ''data:image/png;base64,TWFu'')]" "JStr ''data:image/png;base64,TWFu''" ?r]
    by (simp add: image_body_def p try_catch_def) (simp add: s)
  show ?thesis
    by (simp add: relay_answer s c d)
qed

text \<open>
  C2, as amended. What \<open>predictFromBase64\<close> and \<open>predictPaw\<close> return on a 2xx
  response is the parsed body as it is, so the returned value can carry both a truthy
  \<open>error\<close> and \<open>predictions\<close>. The precedence is given by \<open>handlePredict\<close>: when
  the returned object's \<open>error\<close> field is truthy, it sets the page's error to that
  field and leaves the page's result as it finds it, whatever \<open>predictions\<close> the object
  carries; when the field is absent or falsy, it sets the page's result to the returned
  object and leaves the page's error as it finds it.
\<close>

theorem error_takes_precedence:
  "(fetch env (relay_request img) = Inr r \<and> ok r \<and> body_json r = Inr b \<longrightarrow>
      fst (predictFromBase64 env img) = Inr b)
   \<and> (startsWith (blob_type f) ''image/'' \<and> blob_size f \<le> 5 * 1024 * 1024
       \<and> fileToBase64 env f = Inr b64 \<and> fetch env (predict_request env b64) = Inr r
       \<and> ok r \<and> body_json r = Inr b \<longrightarrow>
        fst (predictPaw env f) = Inr b)
   \<and> (selectedImage h = Some img \<and> img \<noteq> [] \<and> fst (predictFromBase64 env img) = Inr (JObj kvs) \<longrightarrow>
        (map_of kvs ''error'' = Some e \<and> truthy e \<longrightarrow>
           error (handlePredict env between h) = Some e
           \<and> result (handlePredict env between h) = result (between (h\<lparr>loading := True, error := None\<rparr>)))
        \<and> (\<not> truthy_opt (map_of kvs ''error'') \<longrightarrow>
             result (handlePredict env between h) = Some (JObj kvs)
             \<and> error (handlePredict env between h) = error (between (h\<lparr>loading := True, error := None\<rparr>))))"
proof (intro conjI impI)
  assume "fetch env (relay_request img) = Inr r \<and> ok r \<and> body_json r = Inr b"
  then show "fst (predictFromBase64 env img) = Inr b"
    using predictFromBase64_ok [of env img r] by (simp add: try_catch_def)
next
  assume a: "startsWith (blob_type f) ''image/'' \<and> blob_size f \<le> 5 * 1024 * 1024
       \<and> fileToBase64 env f = Inr b64 \<and> fetch env (predict_request env b64) = Inr r
       \<and> ok r \<and> body_json r = Inr b"
  then have "predictPaw_response r = Inr b"
    by (simp add: predictPaw_response_def ok_def)
  with a show "fst (predictPaw env f) = Inr b"
    using predictPaw_fetched [of f env b64 r] by (simp add: try_catch_def)
next
  assume a: "selectedImage h = Some img \<and> img \<noteq> [] \<and> fst (predictFromBase64 env img) = Inr (JObj kvs)"
    and b: "map_of kvs ''error'' = Some e \<and> truthy e"
  then have g: "handlePredict env between h
      = handlePredict_resume (Inr (JObj kvs)) (between (h\<lparr>loading := True, error := None\<rparr>))"
    by (simp add: handlePredict_def handlePredict_begin_def)
  from b show "error (handlePredict env between h) = Some e"
    by (simp add: g handlePredict_resume_def handlePredict_try_def)
  from b show "result (handlePredict env between h) = result (between (h\<lparr>loading := True, error := None\<rparr>))"
    by (simp add: g handlePredict_resume_def handlePredict_try_def)
next
  assume a: "selectedImage h = Some img \<and> img \<noteq> [] \<and> fst (predictFromBase64 env img) = Inr (JObj kvs)"
    and b: "\<not> truthy_opt (map_of kvs ''error'')"
  then have g: "handlePredict env between h
      = handlePredict_resume (Inr (JObj kvs)) (between (h\<lparr>loading := True, error := None\<rparr>))"
    by (simp add: handlePredict_def handlePredict_begin_def)
  from b show "result (handlePredict env between h) = Some (JObj kvs)"
    by (cases "map_of kvs ''error''") (simp_all add: g handlePredict_resume_def handlePredict_try_def)
  from b show "error (handlePredict env between h) = error (between (h\<lparr>loading := True, error := None\<rparr>))"
    by (cases "map_of kvs ''error''") (simp_all add: g handlePredict_resume_def handlePredict_try_def)
qed

theorem error_takes_precedence_witness:
  "fst (predictFromBase64 (client_answering (json_response 200 both_json)) ''data:image/png;base64,TWFu'')
     = Inr both_json
   \<and> fst (predictPaw (client_answering (json_response 200 both_json)) png_file) = Inr both_json
   \<and> error (handlePredict (client_answering (json_response 200 both_json)) (\<lambda>h. h) image_selected)
     = Some (JStr ''No dog found'')
   \<and> result (handlePredict (client_answering (json_response 200 both_json)) (\<lambda>h. h) image_selected) = None
   \<and> result (handlePredict (client_answering (json_response 200 predictions_json)) (\<lambda>h. h) image_selected)
     = Some predictions_json
   \<and> error (handlePredict (client_answering (json_response 200 predictions_json)) (\<lambda>h. h) image_selected)
     = None
   \<and> result (handlePredict (client_answering (json_response 200 predictions_json)) camera_refused
               image_selected)
     = Some predictions_json
   \<and> error (handlePredict (client_answering (json_response 200 predictions_json)) camera_refused
              image_selected)
     = Some (JStr ''Failed to access camera. Please check permissions.'')"
proof -
  let ?img = "''data:image/png;base64,TWFu''"
  let ?bkvs = "[(''error'', JStr ''No dog found''), (''predictions'', JArr [golden])]"
  let ?pkvs = "[(''predictions'', JArr [golden])]"
  let ?rb = "json_response 200 both_json"
  let ?rp = "json_response 200 predictions_json"
  have hb: "ok ?rb \<and> body_json ?rb = Inr both_json"
    by (simp add: json_response_def ok_def)
  have hp: "ok ?rp \<and> body_json ?rp = Inr predictions_json"
    by (simp add: json_response_def ok_def)
  have s: "selectedImage image_selected = Some ?img \<and> ?img \<noteq> []"
    by (simp add: image_selected_def)
  have kb: "both_json = JObj ?bkvs" "map_of ?bkvs ''error'' = Some (JStr ''No dog found'')"
    "truthy (JStr ''No dog found'')"
    by (simp_all add: both_json_def)
  have kp: "predictions_json = JObj ?pkvs" "\<not> truthy_opt (map_of ?pkvs ''error'')"
    by (simp_all add: predictions_json_def)
  have st: "result (image_selected\<lparr>loading := True, error := None\<rparr>) = None"
    "error (image_selected\<lparr>loading := True, error := None\<rparr>) = None"
    "error (camera_refused (image_selected\<lparr>loading := True, error := None\<rparr>))
       = Some (JStr ''Failed to access camera. Please check permissions.'')"
    by (simp_all add: image_selected_def initial_state_def camera_refused_def startCamera_def
        resetState_def)
  from error_takes_precedence [where env = "client_answering ?rb" and img = ?img and r = ?rb
      and b = both_json and f = png_file and ?b64.0 = ?img and h = image_selected and kvs = ?bkvs
      and e = "JStr ''No dog found''" and between = "\<lambda>h. h"]
    hb s kb relay_answer [of ?rb] png_passes(1) png_small png_answering [of ?rb]
  have c1: "fst (predictFromBase64 (client_answering ?rb) ?img) = Inr both_json
            \<and> fst (predictPaw (client_answering ?rb) png_file) = Inr both_json
            \<and> error (handlePredict (client_answering ?rb) (\<lambda>h. h) image_selected)
                = Some (JStr ''No dog found'')
            \<and> result (handlePredict (client_answering ?rb) (\<lambda>h. h) image_selected)
                = result (image_selected\<lparr>loading := True, error := None\<rparr>)"
    by simp
  from error_takes_precedence [where env = "client_answering ?rp" and img = ?img and r = ?rp
      and b = predictions_json and f = png_file and ?b64.0 = ?img and h = image_selected and kvs = ?pkvs
      and e = JNull and between = "\<lambda>h. h"]
    hp s kp relay_answer [of ?rp]
  have c2: "result (handlePredict (client_answering ?rp) (\<lambda>h. h) image_selected) = Some predictions_json
            \<and> error (handlePredict (client_answering ?rp) (\<lambda>h. h) image_selected)
                = error (image_selected\<lparr>loading := True, error := None\<rparr>)"
    by simp
  from error_takes_precedence [where env = "client_answering ?rp" and img = ?img and r = ?rp
      and b = predictions_json and f = png_file and ?b64.0 = ?img and h = image_selected and kvs = ?pkvs
      and e = JNull and between = camera_refused]
    hp s kp relay_answer [of ?rp]
  have c3: "result (handlePredict (client_answering ?rp) camera_refused image_selected)
              = Some predictions_json
            \<and> error (handlePredict (client_answering ?rp) camera_refused image_selected)
                = error (camera_refused (image_selected\<lparr>loading := True, error := None\<rparr>))"
    by simp
  from c1 c2 c3 show ?thesis
    by (simp add: st)
qed

theorem error_takes_precedence_counterexample:
  "fetch (client_answering (json_response 200 both_json)) (relay_request ''data:image/png;base64,TWFu'')
     = Inr (json_response 200 both_json)
   \<and> ok (json_response 200 both_json)
   \<and> fst (predictFromBase64 (client_answering (json_response 200 both_json)) ''data:image/png;base64,TWFu'')
       = Inr both_json
   \<and> fst (predictPaw (client_answering (json_response 200 both_json)) png_file) = Inr both_json
   \<and> get_prop both_json ''error'' = Inr (Some (JStr ''No dog found''))
   \<and> truthy (JStr ''No dog found'')
   \<and> get_prop both_json ''predictions'' = Inr (Some (JArr [golden]))
   \<and> truthy (JArr [golden])"
proof -
  let ?r = "json_response 200 both_json"
  have o: "ok ?r" "body_json ?r = Inr both_json"
    by (simp_all add: json_response_def ok_def)
  have a: "fst (predictFromBase64 (client_answering ?r) ''data:image/png;base64,TWFu'') = Inr both_json"
    using predictFromBase64_ok [OF relay_answer o(1)] o(2) by (simp add: try_catch_def)
  have "predictPaw_response ?r = Inr both_json"
    by (simp add: predictPaw_response_def json_response_def ok_def)
  then have b: "fst (predictPaw (client_answering ?r) png_file) = Inr both_json"
    using predictPaw_fetched [OF png_passes(1) png_small png_answering relay_answer]
    by (simp add: try_catch_def)
  show ?thesis
    by (simp add: relay_answer o a b) (simp add: both_json_def)
qed

text \<open>
  C3. \<open>urlToBase64\<close> fails when the GET fails in transport, but it never looks at the
  status: a GET answered 404 with an HTML body does not fail, it resolves to the data URL
  of that body.
\<close>

theorem urlToBase64_ignores_status:
  "urlToBase64 client_offline ''https://images.example/missing.jpg'' = Inl (ErrorObject ''Failed to fetch'')
   \<and> fetch (client_answering (html_response 404)) (get_request ''https://images.example/missing.jpg'')
       = Inr (html_response 404)
   \<and> status (html_response 404) = 404
   \<and> \<not> ok (html_response 404)
   \<and> urlToBase64 (client_answering (html_response 404)) ''https://images.example/missing.jpg''
       = Inr ''data:text/html;base64,PHA+''"
  by (simp add: urlToBase64_def response_blob_def fileToBase64_def html_response_def ok_def
      client_answering_def client_offline_def data_url_def b64_char_def b64_alphabet_def)

text \<open>
  C4. Cancelling and capturing end the tracks, teardown does not: the component registers
  no cleanup, so a camera session that is open when the component is torn down leaves its
  track live.
\<close>

theorem unmount_leaves_track_live:
  "cameraActive (snd camera_attached)
   \<and> stream (snd camera_attached) = Some [0]
   \<and> fst camera_attached 0 = Some Live
   \<and> fst (stopCamera camera_attached) 0 = Some Ended
   \<and> fst (capturePhoto True ''data:image/jpeg;base64,TWFu'' camera_attached) 0 = Some Ended
   \<and> unmount camera_attached 0 = Some Live"
  by (simp add: camera_attached_def camera_session_def startCamera_def open_tracks_def
      stream_effect_def initial_state_def stopCamera_def stop_tracks_def capturePhoto_def
      unmount_def Let_def)

text \<open>
  C5, as amended. Neither \<open>predictPaw\<close> nor \<open>predictFromBase64\<close> lets a thrown value
  escape: for every file, every string and every behaviour of the outside world each
  returns a value. Every failure is turned into \<open>{ error: message }\<close>, and the message
  is: the validation message for a file of the wrong type or size; "An unexpected error
  occurred" for a failed read and for any thrown value that is no \<open>Error\<close>; the message
  of the rejection for a request that fails in transport and for a 2xx body that is no
  JSON; in direct mode the fixed messages for status 429 and for 401 and 403; and, for any
  other status that is not 2xx, "Unknown error", the rendered \<open>error\<close> field of the
  body, the generic message with the status, or the message of a \<open>TypeError\<close>, as the
  body decides. The rendered \<open>error\<close> field can be empty. A 2xx body that is JSON is
  returned as it is, whatever JSON value it is.
\<close>

theorem predict_never_throws:
  "(\<exists>v. fst (predictPaw env f) = Inr v)
   \<and> (\<exists>v. fst (predictFromBase64 env img) = Inr v)
   \<and> (\<not> startsWith (blob_type f) ''image/'' \<longrightarrow>
        fst (predictPaw env f) = Inr (JObj [(''error'', JStr ''Please upload a valid image file'')]))
   \<and> (startsWith (blob_type f) ''image/'' \<and> blob_size f > 5 * 1024 * 1024 \<longrightarrow>
        fst (predictPaw env f) = Inr (JObj [(''error'', JStr ''Image size should be less than 5MB'')]))
   \<and> (startsWith (blob_type f) ''image/'' \<and> blob_size f \<le> 5 * 1024 * 1024 \<longrightarrow>
        (read_fails env f \<longrightarrow>
             fst (predictPaw env f) = Inr (JObj [(''error'', JStr ''An unexpected error occurred'')]))
        \<and> (\<not> read_fails env f \<longrightarrow>
             (fetch env
                \<lparr>req_url = env_string (API_URL env) @ ''/predict'', req_method = ''POST'',
                 req_headers = [(''Content-Type'', ''application/json''),
                                (''X-API-Key'', env_string (API_KEY env))],
                 req_body = Some (JObj [(''image'', JStr (data_url (blob_type f) (blob_bytes f)))])\<rparr>
              = Inl (ErrorObject n) \<longrightarrow>
                  fst (predictPaw env f) = Inr (JObj [(''error'', JStr n)]))
             \<and> (fetch env
                \<lparr>req_url = env_string (API_URL env) @ ''/predict'', req_method = ''POST'',
                 req_headers = [(''Content-Type'', ''application/json''),
                                (''X-API-Key'', env_string (API_KEY env))],
                 req_body = Some (JObj [(''image'', JStr (data_url (blob_type f) (blob_bytes f)))])\<rparr>
              = Inl OtherValue \<longrightarrow>
                  fst (predictPaw env f) = Inr (JObj [(''error'', JStr ''An unexpected error occurred'')]))
             \<and> (fetch env
                \<lparr>req_url = env_string (API_URL env) @ ''/predict'', req_method = ''POST'',
                 req_headers = [(''Content-Type'', ''application/json''),
                                (''X-API-Key'', env_string (API_KEY env))],
                 req_body = Some (JObj [(''image'', JStr (data_url (blob_type f) (blob_bytes f)))])\<rparr>
              = Inr r \<longrightarrow>
                  (status r = 429 \<longrightarrow>
                       fst (predictPaw env f)
                         = Inr (JObj [(''error'', JStr ''Too many requests. Please try again later.'')]))
                  \<and> (status r = 401 \<or> status r = 403 \<longrightarrow>
                       fst (predictPaw env f)
                         = Inr (JObj [(''error'', JStr ''Authentication failed. Please check your API key.'')]))
                  \<and> (status r \<noteq> 429 \<and> status r \<noteq> 401 \<and> status r \<noteq> 403 \<and> \<not> ok r
                   \<and> ((body_json r = Inl x \<and> m = ''Unknown error'')
                         \<or> (body_json r = Inr (JObj kvs) \<and> map_of kvs ''error'' = Some w \<and> truthy w
                             \<and> to_string w = Inr m)
                         \<or> (body_json r = Inr b \<and> b \<noteq> JNull \<and> \<not> truthy_opt (prop_of b ''error'')
                             \<and> m = ''HTTP error! status: '' @ number_to_string (status r))
                         \<or> (body_json r = Inr JNull
                             \<and> m = ''Cannot read properties of null (reading '' @ [CHR 0x27] @ ''error''
                                     @ [CHR 0x27] @ '')'')
                         \<or> (body_json r = Inr (JObj kvs) \<and> map_of kvs ''error'' = Some w \<and> truthy w
                             \<and> to_string w = Inl t \<and> m = ''Cannot convert object to primitive value'')) \<longrightarrow>
                       fst (predictPaw env f) = Inr (JObj [(''error'', JStr m)]))
                  \<and> (ok r \<and> body_json r = Inl (ErrorObject n) \<longrightarrow>
                       fst (predictPaw env f) = Inr (JObj [(''error'', JStr n)]))
                  \<and> (ok r \<and> body_json r = Inl OtherValue \<longrightarrow>
                       fst (predictPaw env f) = Inr (JObj [(''error'', JStr ''An unexpected error occurred'')]))
                  \<and> (ok r \<and> body_json r = Inr v \<longrightarrow>
                       fst (predictPaw env f) = Inr v))))
   \<and> (fetch env
      \<lparr>req_url = ''/api/predict'', req_method = ''POST'',
       req_headers = [(''Content-Type'', ''application/json'')],
       req_body = Some (JObj [(''image'', JStr img)])\<rparr>
    = Inl (ErrorObject n) \<longrightarrow>
        fst (predictFromBase64 env img) = Inr (JObj [(''error'', JStr n)]))
   \<and> (fetch env
      \<lparr>req_url = ''/api/predict'', req_method = ''POST'',
       req_headers = [(''Content-Type'', ''application/json'')],
       req_body = Some (JObj [(''image'', JStr img)])\<rparr>
    = Inl OtherValue \<longrightarrow>
        fst (predictFromBase64 env img) = Inr (JObj [(''error'', JStr ''An unexpected error occurred'')]))
   \<and> (fetch env
      \<lparr>req_url = ''/api/predict'', req_method = ''POST'',
       req_headers = [(''Content-Type'', ''application/json'')],
       req_body = Some (JObj [(''image'', JStr img)])\<rparr>
    = Inr r \<longrightarrow>
        (\<not> ok r
         \<and> ((body_json r = Inl x \<and> m = ''Unknown error'')
               \<or> (body_json r = Inr (JObj kvs) \<and> map_of kvs ''error'' = Some w \<and> truthy w
                   \<and> to_string w = Inr m)
               \<or> (body_json r = Inr b \<and> b \<noteq> JNull \<and> \<not> truthy_opt (prop_of b ''error'')
                   \<and> m = ''HTTP error! status: '' @ number_to_string (status r))
               \<or> (body_json r = Inr JNull
                   \<and> m = ''Cannot read properties of null (reading '' @ [CHR 0x27] @ ''error''
                           @ [CHR 0x27] @ '')'')
               \<or> (body_json r = Inr (JObj kvs) \<and> map_of kvs ''error'' = Some w \<and> truthy w
                   \<and> to_string w = Inl t \<and> m = ''Cannot convert object to primitive value'')) \<longrightarrow>
             fst (predictFromBase64 env img) = Inr (JObj [(''error'', JStr m)]))
        \<and> (ok r \<and> body_json r = Inl (ErrorObject n) \<longrightarrow>
             fst (predictFromBase64 env img) = Inr (JObj [(''error'', JStr n)]))
        \<and> (ok r \<and> body_json r = Inl OtherValue \<longrightarrow>
             fst (predictFromBase64 env img) = Inr (JObj [(''error'', JStr ''An unexpected error occurred'')]))
        \<and> (ok r \<and> body_json r = Inr v \<longrightarrow>
             fst (predictFromBase64 env img) = Inr v))"
proof (intro conjI impI)
  show "\<exists>v. fst (predictPaw env f) = Inr v"
    using try_catch_result by (simp add: fst_predictPaw)
next
  show "\<exists>v. fst (predictFromBase64 env img) = Inr v"
    using try_catch_result by (simp add: fst_predictFromBase64)
next
  assume "\<not> startsWith (blob_type f) ''image/''"
  then show "fst (predictPaw env f) = Inr (JObj [(''error'', JStr ''Please upload a valid image file'')])"
    by (simp add: fst_predictPaw predictPaw_try_def try_catch_def)
next
  assume "startsWith (blob_type f) ''image/'' \<and> blob_size f > 5 * 1024 * 1024"
  then show "fst (predictPaw env f) = Inr (JObj [(''error'', JStr ''Image size should be less than 5MB'')])"
    by (simp add: fst_predictPaw predictPaw_try_def try_catch_def maxSize_def)
next
  assume "startsWith (blob_type f) ''image/'' \<and> blob_size f \<le> 5 * 1024 * 1024"
    and "read_fails env f"
  then show "fst (predictPaw env f) = Inr (JObj [(''error'', JStr ''An unexpected error occurred'')])"
    using predictPaw_unreadable [of f env OtherValue] by (simp add: fileToBase64_image)
next
  assume "startsWith (blob_type f) ''image/'' \<and> blob_size f \<le> 5 * 1024 * 1024"
    and "\<not> read_fails env f"
    and "fetch env
        \<lparr>req_url = env_string (API_URL env) @ ''/predict'', req_method = ''POST'',
         req_headers = [(''Content-Type'', ''application/json''),
                        (''X-API-Key'', env_string (API_KEY env))],
         req_body = Some (JObj [(''image'', JStr (data_url (blob_type f) (blob_bytes f)))])\<rparr>
      = Inl (ErrorObject n)"
  then show "fst (predictPaw env f) = Inr (JObj [(''error'', JStr n)])"
    using predictPaw_rejected [of f env "data_url (blob_type f) (blob_bytes f)" "ErrorObject n"]
    by (simp add: fileToBase64_image predict_request_def)
next
  assume "startsWith (blob_type f) ''image/'' \<and> blob_size f \<le> 5 * 1024 * 1024"
    and "\<not> read_fails env f"
    and "fetch env
        \<lparr>req_url = env_string (API_URL env) @ ''/predict'', req_method = ''POST'',
         req_headers = [(''Content-Type'', ''application/json''),
                        (''X-API-Key'', env_string (API_KEY env))],
         req_body = Some (JObj [(''image'', JStr (data_url (blob_type f) (blob_bytes f)))])\<rparr>
      = Inl OtherValue"
  then show "fst (predictPaw env f) = Inr (JObj [(''error'', JStr ''An unexpected error occurred'')])"
    using predictPaw_rejected [of f env "data_url (blob_type f) (blob_bytes f)" OtherValue]
    by (simp add: fileToBase64_image predict_request_def)
next
  assume "startsWith (blob_type f) ''image/'' \<and> blob_size f \<le> 5 * 1024 * 1024"
    and "\<not> read_fails env f"
    and "fetch env
        \<lparr>req_url = env_string (API_URL env) @ ''/predict'', req_method = ''POST'',
         req_headers = [(''Content-Type'', ''application/json''),
                        (''X-API-Key'', env_string (API_KEY env))],
         req_body = Some (JObj [(''image'', JStr (data_url (blob_type f) (blob_bytes f)))])\<rparr>
      = Inr r"
    and "status r = 429"
  then show "fst (predictPaw env f) = Inr (JObj [(''error'', JStr ''Too many requests. Please try again later.'')])"
    using predictPaw_fetched [of f env "data_url (blob_type f) (blob_bytes f)" r]
    by (simp add: fileToBase64_image predict_request_def predictPaw_response_def try_catch_def)
next
  assume "startsWith (blob_type f) ''image/'' \<and> blob_size f \<le> 5 * 1024 * 1024"
    and "\<not> read_fails env f"
    and "fetch env
        \<lparr>req_url = env_string (API_URL env) @ ''/predict'', req_method = ''POST'',
         req_headers = [(''Content-Type'', ''application/json''),
                        (''X-API-Key'', env_string (API_KEY env))],
         req_body = Some (JObj [(''image'', JStr (data_url (blob_type f) (blob_bytes f)))])\<rparr>
      = Inr r"
    and "status r = 401 \<or> status r = 403"
  then show "fst (predictPaw env f) = Inr (JObj [(''error'', JStr ''Authentication failed. Please check your API key.'')])"
    using predictPaw_fetched [of f env "data_url (blob_type f) (blob_bytes f)" r]
    by (auto simp: fileToBase64_image predict_request_def predictPaw_response_def try_catch_def)
next
  assume "startsWith (blob_type f) ''image/'' \<and> blob_size f \<le> 5 * 1024 * 1024"
    and "\<not> read_fails env f"
    and "fetch env
        \<lparr>req_url = env_string (API_URL env) @ ''/predict'', req_method = ''POST'',
         req_headers = [(''Content-Type'', ''application/json''),
                        (''X-API-Key'', env_string (API_KEY env))],
         req_body = Some (JObj [(''image'', JStr (data_url (blob_type f) (blob_bytes f)))])\<rparr>
      = Inr r"
    and "status r \<noteq> 429 \<and> status r \<noteq> 401 \<and> status r \<noteq> 403 \<and> \<not> ok r
      \<and> ((body_json r = Inl x \<and> m = ''Unknown error'')
            \<or> (body_json r = Inr (JObj kvs) \<and> map_of kvs ''error'' = Some w \<and> truthy w
                \<and> to_string w = Inr m)
            \<or> (body_json r = Inr b \<and> b \<noteq> JNull \<and> \<not> truthy_opt (prop_of b ''error'')
                \<and> m = ''HTTP error! status: '' @ number_to_string (status r))
            \<or> (body_json r = Inr JNull
                \<and> m = ''Cannot read properties of null (reading '' @ [CHR 0x27] @ ''error''
                        @ [CHR 0x27] @ '')'')
            \<or> (body_json r = Inr (JObj kvs) \<and> map_of kvs ''error'' = Some w \<and> truthy w
                \<and> to_string w = Inl t \<and> m = ''Cannot convert object to primitive value''))"
  then show "fst (predictPaw env f) = Inr (JObj [(''error'', JStr m)])"
    using predictPaw_fetched [of f env "data_url (blob_type f) (blob_bytes f)" r] http_thrown [of r x m kvs w b t]
    by (simp add: fileToBase64_image predict_request_def predictPaw_response_def try_catch_def)
next
  assume "startsWith (blob_type f) ''image/'' \<and> blob_size f \<le> 5 * 1024 * 1024"
    and "\<not> read_fails env f"
    and "fetch env
        \<lparr>req_url = env_string (API_URL env) @ ''/predict'', req_method = ''POST'',
         req_headers = [(''Content-Type'', ''application/json''),
                        (''X-API-Key'', env_string (API_KEY env))],
         req_body = Some (JObj [(''image'', JStr (data_url (blob_type f) (blob_bytes f)))])\<rparr>
      = Inr r"
    and "ok r \<and> body_json r = Inl (ErrorObject n)"
  then show "fst (predictPaw env f) = Inr (JObj [(''error'', JStr n)])"
    using predictPaw_fetched [of f env "data_url (blob_type f) (blob_bytes f)" r]
    by (simp add: fileToBase64_image predict_request_def predictPaw_response_def try_catch_def ok_def)
next
  assume "startsWith (blob_type f) ''image/'' \<and> blob_size f \<le> 5 * 1024 * 1024"
    and "\<not> read_fails env f"
    and "fetch env
        \<lparr>req_url = env_string (API_URL env) @ ''/predict'', req_method = ''POST'',
         req_headers = [(''Content-Type'', ''application/json''),
                        (''X-API-Key'', env_string (API_KEY env))],
         req_body = Some (JObj [(''image'', JStr (data_url (blob_type f) (blob_bytes f)))])\<rparr>
      = Inr r"
    and "ok r \<and> body_json r = Inl OtherValue"
  then show "fst (predictPaw env f) = Inr (JObj [(''error'', JStr ''An unexpected error occurred'')])"
    using predictPaw_fetched [of f env "data_url (blob_type f) (blob_bytes f)" r]
    by (simp add: fileToBase64_image predict_request_def predictPaw_response_def try_catch_def ok_def)
next
  assume "startsWith (blob_type f) ''image/'' \<and> blob_size f \<le> 5 * 1024 * 1024"
    and "\<not> read_fails env f"
    and "fetch env
        \<lparr>req_url = env_string (API_URL env) @ ''/predict'', req_method = ''POST'',
         req_headers = [(''Content-Type'', ''application/json''),
                        (''X-API-Key'', env_string (API_KEY env))],
         req_body = Some (JObj [(''image'', JStr (data_url (blob_type f) (blob_bytes f)))])\<rparr>
      = Inr r"
    and "ok r \<and> body_json r = Inr v"
  then show "fst (predictPaw env f) = Inr v"
    using predictPaw_fetched [of f env "data_url (blob_type f) (blob_bytes f)" r]
    by (simp add: fileToBase64_image predict_request_def predictPaw_response_def try_catch_def ok_def)
next
  assume "fetch env
        \<lparr>req_url = ''/api/predict'', req_method = ''POST'',
         req_headers = [(''Content-Type'', ''application/json'')],
         req_body = Some (JObj [(''image'', JStr img)])\<rparr>
      = Inl (ErrorObject n)"
  then show "fst (predictFromBase64 env img) = Inr (JObj [(''error'', JStr n)])"
    using predictFromBase64_rejected [of env img "ErrorObject n"] by (simp add: relay_request_def)
next
  assume "fetch env
        \<lparr>req_url = ''/api/predict'', req_method = ''POST'',
         req_headers = [(''Content-Type'', ''application/json'')],
         req_body = Some (JObj [(''image'', JStr img)])\<rparr>
      = Inl OtherValue"
  then show "fst (predictFromBase64 env img) = Inr (JObj [(''error'', JStr ''An unexpected error occurred'')])"
    using predictFromBase64_rejected [of env img OtherValue] by (simp add: relay_request_def)
next
  assume "fetch env
        \<lparr>req_url = ''/api/predict'', req_method = ''POST'',
         req_headers = [(''Content-Type'', ''application/json'')],
         req_body = Some (JObj [(''image'', JStr img)])\<rparr>
      = Inr r"
    and "\<not> ok r
      \<and> ((body_json r = Inl x \<and> m = ''Unknown error'')
            \<or> (body_json r = Inr (JObj kvs) \<and> map_of kvs ''error'' = Some w \<and> truthy w
                \<and> to_string w = Inr m)
            \<or> (body_json r = Inr b \<and> b \<noteq> JNull \<and> \<not> truthy_opt (prop_of b ''error'')
                \<and> m = ''HTTP error! status: '' @ number_to_string (status r))
            \<or> (body_json r = Inr JNull
                \<and> m = ''Cannot read properties of null (reading '' @ [CHR 0x27] @ ''error''
                        @ [CHR 0x27] @ '')'')
            \<or> (body_json r = Inr (JObj kvs) \<and> map_of kvs ''error'' = Some w \<and> truthy w
                \<and> to_string w = Inl t \<and> m = ''Cannot convert object to primitive value''))"
  then show "fst (predictFromBase64 env img) = Inr (JObj [(''error'', JStr m)])"
    using predictFromBase64_not_ok [of env img r] http_thrown [of r x m kvs w b t]
    by (simp add: relay_request_def)
next
  assume "fetch env
        \<lparr>req_url = ''/api/predict'', req_method = ''POST'',
         req_headers = [(''Content-Type'', ''application/json'')],
         req_body = Some (JObj [(''image'', JStr img)])\<rparr>
      = Inr r"
    and "ok r \<and> body_json r = Inl (ErrorObject n)"
  then show "fst (predictFromBase64 env img) = Inr (JObj [(''error'', JStr n)])"
    using predictFromBase64_ok [of env img r] by (simp add: relay_request_def try_catch_def)
next
  assume "fetch env
        \<lparr>req_url = ''/api/predict'', req_method = ''POST'',
         req_headers = [(''Content-Type'', ''application/json'')],
         req_body = Some (JObj [(''image'', JStr img)])\<rparr>
      = Inr r"
    and "ok r \<and> body_json r = Inl OtherValue"
  then show "fst (predictFromBase64 env img) = Inr (JObj [(''error'', JStr ''An unexpected error occurred'')])"
    using predictFromBase64_ok [of env img r] by (simp add: relay_request_def try_catch_def)
next
  assume "fetch env
        \<lparr>req_url = ''/api/predict'', req_method = ''POST'',
         req_headers = [(''Content-Type'', ''application/json'')],
         req_body = Some (JObj [(''image'', JStr img)])\<rparr>
      = Inr r"
    and "ok r \<and> body_json r = Inr v"
  then show "fst (predictFromBase64 env img) = Inr v"
    using predictFromBase64_ok [of env img r] by (simp add: relay_request_def try_catch_def)
qed

theorem predict_never_throws_witness:
  "fst (predictPaw client_offline text_file) = Inr (JObj [(''error'', JStr ''Please upload a valid image file'')])
   \<and> fst (predictPaw client_offline huge_file) = Inr (JObj [(''error'', JStr ''Image size should be less than 5MB'')])
   \<and> fst (predictPaw client_unreadable png_file) = Inr (JObj [(''error'', JStr ''An unexpected error occurred'')])
   \<and> fst (predictPaw client_offline png_file) = Inr (JObj [(''error'', JStr ''Failed to fetch'')])
   \<and> fst (predictFromBase64 client_offline ''data:image/png;base64,TWFu'') = Inr (JObj [(''error'', JStr ''Failed to fetch'')])
   \<and> fst (predictPaw (client_rejecting OtherValue) png_file) = Inr (JObj [(''error'', JStr ''An unexpected error occurred'')])
   \<and> fst (predictFromBase64 (client_rejecting OtherValue) ''data:image/png;base64,TWFu'') = Inr (JObj [(''error'', JStr ''An unexpected error occurred'')])
   \<and> fst (predictPaw (client_answering (json_response 429 (JObj []))) png_file) = Inr (JObj [(''error'', JStr ''Too many requests. Please try again later.'')])
   \<and> fst (predictPaw (client_answering (json_response 401 (JObj []))) png_file) = Inr (JObj [(''error'', JStr ''Authentication failed. Please check your API key.'')])
   \<and> fst (predictPaw (client_answering (json_response 500 (JObj [(''error'', JArr [])]))) png_file) = Inr (JObj [(''error'', JStr [])])
   \<and> fst (predictFromBase64 (client_answering (json_response 500 (JObj [(''error'', JArr [])]))) ''data:image/png;base64,TWFu'') = Inr (JObj [(''error'', JStr [])])
   \<and> fst (predictPaw (client_answering (html_response 200)) png_file) = Inr (JObj [(''error'', JStr ''Unexpected token < in JSON at position 0'')])
   \<and> fst (predictFromBase64 (client_answering (html_response 200)) ''data:image/png;base64,TWFu'') = Inr (JObj [(''error'', JStr ''Unexpected token < in JSON at position 0'')])
   \<and> fst (predictPaw (client_answering (settled_response (Inl OtherValue))) png_file) = Inr (JObj [(''error'', JStr ''An unexpected error occurred'')])
   \<and> fst (predictFromBase64 (client_answering (settled_response (Inl OtherValue))) ''data:image/png;base64,TWFu'') = Inr (JObj [(''error'', JStr ''An unexpected error occurred'')])
   \<and> fst (predictPaw (client_answering (json_response 200 predictions_json)) png_file) = Inr predictions_json
   \<and> fst (predictFromBase64 (client_answering (json_response 200 predictions_json)) ''data:image/png;base64,TWFu'') = Inr predictions_json"
proof -
  have s429: "status (json_response 429 (JObj [])) = 429"
    by (simp add: json_response_def)
  have s401: "status (json_response 401 (JObj [])) = 401"
    by (simp add: json_response_def)
  have s500: "status (json_response 500 (JObj [(''error'', JArr [])])) = 500" "\<not> ok (json_response 500 (JObj [(''error'', JArr [])]))"
    "body_json (json_response 500 (JObj [(''error'', JArr [])])) = Inr (JObj [(''error'', JArr [])])"
    by (simp_all add: json_response_def ok_def)
  have sh: "ok (html_response 200)" "body_json (html_response 200) = Inl (ErrorObject ''Unexpected token < in JSON at position 0'')"
    by (simp_all add: html_response_def ok_def)
  have so: "ok (settled_response (Inl OtherValue))" "body_json (settled_response (Inl OtherValue)) = Inl OtherValue"
    by (simp_all add: settled_response_def ok_def)
  have sk: "ok (json_response 200 predictions_json)" "body_json (json_response 200 predictions_json) = Inr predictions_json"
    by (simp_all add: json_response_def ok_def)
  from predict_never_throws [where env = client_offline and f = text_file and
      img = "''data:image/png;base64,TWFu''" and n = "[]" and r = "json_response 200 JNull" and
      x = "ErrorObject []" and m = "[]" and kvs = "[]" and w = JNull and b = JNull and
      t = "ErrorObject []" and v = JNull]
    text_not_image
  have c1: "fst (predictPaw client_offline text_file) = Inr (JObj [(''error'', JStr ''Please upload a valid image file'')])"
    by simp
  from predict_never_throws [where env = client_offline and f = huge_file and
      img = "''data:image/png;base64,TWFu''" and n = "[]" and r = "json_response 200 JNull" and
      x = "ErrorObject []" and m = "[]" and kvs = "[]" and w = JNull and b = JNull and
      t = "ErrorObject []" and v = JNull]
    huge_image huge_size
  have c2: "fst (predictPaw client_offline huge_file) = Inr (JObj [(''error'', JStr ''Image size should be less than 5MB'')])"
    by simp
  from predict_never_throws [where env = client_unreadable and f = png_file and
      img = "''data:image/png;base64,TWFu''" and n = "[]" and r = "json_response 200 JNull" and
      x = "ErrorObject []" and m = "[]" and kvs = "[]" and w = JNull and b = JNull and
      t = "ErrorObject []" and v = JNull]
    png_passes(1) png_size unreadable
  have c3: "fst (predictPaw client_unreadable png_file) = Inr (JObj [(''error'', JStr ''An unexpected error occurred'')])"
    by simp
  from predict_never_throws [where env = client_offline and f = png_file and
      img = "''data:image/png;base64,TWFu''" and n = "''Failed to fetch''" and
      r = "json_response 200 JNull" and x = "ErrorObject []" and m = "[]" and kvs = "[]" and
      w = JNull and b = JNull and t = "ErrorObject []" and v = JNull]
    png_passes(1) png_size offline
  have c4: "fst (predictPaw client_offline png_file) = Inr (JObj [(''error'', JStr ''Failed to fetch'')])
            \<and> fst (predictFromBase64 client_offline ''data:image/png;base64,TWFu'') = Inr (JObj [(''error'', JStr ''Failed to fetch'')])"
    by simp
  from predict_never_throws [where env = "client_rejecting OtherValue" and f = png_file and
      img = "''data:image/png;base64,TWFu''" and n = "[]" and r = "json_response 200 JNull" and
      x = "ErrorObject []" and m = "[]" and kvs = "[]" and w = JNull and b = JNull and
      t = "ErrorObject []" and v = JNull]
    png_passes(1) png_size rejecting [of OtherValue]
  have c5: "fst (predictPaw (client_rejecting OtherValue) png_file) = Inr (JObj [(''error'', JStr ''An unexpected error occurred'')])
            \<and> fst (predictFromBase64 (client_rejecting OtherValue) ''data:image/png;base64,TWFu'') = Inr (JObj [(''error'', JStr ''An unexpected error occurred'')])"
    by simp
  from predict_never_throws [where env = "client_answering (json_response 429 (JObj []))" and
      f = png_file and img = "''data:image/png;base64,TWFu''" and n = "[]" and
      r = "json_response 429 (JObj [])" and x = "ErrorObject []" and m = "[]" and kvs = "[]" and
      w = JNull and b = JNull and t = "ErrorObject []" and v = JNull]
    png_passes(1) png_size answering [of "json_response 429 (JObj [])"] s429
  have c6: "fst (predictPaw (client_answering (json_response 429 (JObj []))) png_file) = Inr (JObj [(''error'', JStr ''Too many requests. Please try again later.'')])"
    by simp
  from predict_never_throws [where env = "client_answering (json_response 401 (JObj []))" and
      f = png_file and img = "''data:image/png;base64,TWFu''" and n = "[]" and
      r = "json_response 401 (JObj [])" and x = "ErrorObject []" and m = "[]" and kvs = "[]" and
      w = JNull and b = JNull and t = "ErrorObject []" and v = JNull]
    png_passes(1) png_size answering [of "json_response 401 (JObj [])"] s401
  have c7: "fst (predictPaw (client_answering (json_response 401 (JObj []))) png_file) = Inr (JObj [(''error'', JStr ''Authentication failed. Please check your API key.'')])"
    by simp
  from predict_never_throws [where
      env = "client_answering (json_response 500 (JObj [(''error'', JArr [])]))" and
      f = png_file and img = "''data:image/png;base64,TWFu''" and n = "[]" and
      r = "json_response 500 (JObj [(''error'', JArr [])])" and x = "ErrorObject []" and
      m = "[]" and kvs = "[(''error'', JArr [])]" and w = "JArr []" and b = JNull and
      t = "ErrorObject []" and v = JNull]
    png_passes(1) png_size answering [of "json_response 500 (JObj [(''error'', JArr [])])"] s500
  have c8: "fst (predictPaw (client_answering (json_response 500 (JObj [(''error'', JArr [])]))) png_file) = Inr (JObj [(''error'', JStr [])])
            \<and> fst (predictFromBase64 (client_answering (json_response 500 (JObj [(''error'', JArr [])]))) ''data:image/png;base64,TWFu'') = Inr (JObj [(''error'', JStr [])])"
    by simp
  from predict_never_throws [where env = "client_answering (html_response 200)" and
      f = png_file and img = "''data:image/png;base64,TWFu''" and
      n = "''Unexpected token < in JSON at position 0''" and r = "html_response 200" and
      x = "ErrorObject []" and m = "[]" and kvs = "[]" and w = JNull and b = JNull and
      t = "ErrorObject []" and v = JNull]
    png_passes(1) png_size answering [of "html_response 200"] sh
  have c9: "fst (predictPaw (client_answering (html_response 200)) png_file) = Inr (JObj [(''error'', JStr ''Unexpected token < in JSON at position 0'')])
            \<and> fst (predictFromBase64 (client_answering (html_response 200)) ''data:image/png;base64,TWFu'') = Inr (JObj [(''error'', JStr ''Unexpected token < in JSON at position 0'')])"
    by simp
  from predict_never_throws [where
      env = "client_answering (settled_response (Inl OtherValue))" and f = png_file and
      img = "''data:image/png;base64,TWFu''" and n = "[]" and
      r = "settled_response (Inl OtherValue)" and x = "ErrorObject []" and m = "[]" and
      kvs = "[]" and w = JNull and b = JNull and t = "ErrorObject []" and v = JNull]
    png_passes(1) png_size answering [of "settled_response (Inl OtherValue)"] so
  have c10: "fst (predictPaw (client_answering (settled_response (Inl OtherValue))) png_file) = Inr (JObj [(''error'', JStr ''An unexpected error occurred'')])
            \<and> fst (predictFromBase64 (client_answering (settled_response (Inl OtherValue))) ''data:image/png;base64,TWFu'') = Inr (JObj [(''error'', JStr ''An unexpected error occurred'')])"
    by simp
  from predict_never_throws [where
      env = "client_answering (json_response 200 predictions_json)" and f = png_file and
      img = "''data:image/png;base64,TWFu''" and n = "[]" and
      r = "json_response 200 predictions_json" and x = "ErrorObject []" and m = "[]" and
      kvs = "[]" and w = JNull and b = JNull and t = "ErrorObject []" and v = predictions_json]
    png_passes(1) png_size answering [of "json_response 200 predictions_json"] sk
  have c11: "fst (predictPaw (client_answering (json_response 200 predictions_json)) png_file) = Inr predictions_json
            \<and> fst (predictFromBase64 (client_answering (json_response 200 predictions_json)) ''data:image/png;base64,TWFu'') = Inr predictions_json"
    by simp
  from c1 c2 c3 c4 c5 c6 c7 c8 c9 c10 c11 show ?thesis
    by simp
qed

theorem predict_never_throws_counterexample:
  "fetch (client_answering (json_response 500 (JObj [(''error'', JArr [])])))
       (relay_request ''data:image/png;base64,TWFu'')
     = Inr (json_response 500 (JObj [(''error'', JArr [])]))
   \<and> \<not> ok (json_response 500 (JObj [(''error'', JArr [])]))
   \<and> fst (predictFromBase64 (client_answering (json_response 500 (JObj [(''error'', JArr [])])))
            ''data:image/png;base64,TWFu'')
       = Inr (JObj [(''error'', JStr [])])
   \<and> fst (predictPaw (client_answering (json_response 500 (JObj [(''error'', JArr [])]))) png_file)
       = Inr (JObj [(''error'', JStr [])])
   \<and> ok (json_response 200 JNull)
   \<and> fst (predictFromBase64 (client_answering (json_response 200 JNull)) ''data:image/png;base64,TWFu'')
       = Inr JNull
   \<and> fst (predictPaw (client_answering (json_response 200 JNull)) png_file) = Inr JNull"
proof -
  let ?r = "json_response 500 (JObj [(''error'', JArr [])])"
  let ?n = "json_response 200 JNull"
  have a: "\<not> ok ?r" "body_json ?r = Inr (JObj [(''error'', JArr [])])" "status ?r = 500"
    by (simp_all add: json_response_def ok_def)
  have t: "throw_http_error ?r = ErrorObject []"
    using throw_http_error_field [of ?r "[(''error'', JArr [])]" "JArr []" "[]"] a(2) by simp
  have c: "fst (predictFromBase64 (client_answering ?r) ''data:image/png;base64,TWFu'')
       = Inr (JObj [(''error'', JStr [])])"
    using predictFromBase64_not_ok [OF relay_answer a(1)] t by simp
  have "predictPaw_response ?r = Inl (throw_http_error ?r)"
    using a by (simp add: predictPaw_response_def)
  then have d: "fst (predictPaw (client_answering ?r) png_file) = Inr (JObj [(''error'', JStr [])])"
    using predictPaw_fetched [OF png_passes(1) png_small png_answering relay_answer] t
    by (simp add: try_catch_def)
  have o: "ok ?n" "body_json ?n = Inr JNull"
    by (simp_all add: json_response_def ok_def)
  have e: "fst (predictFromBase64 (client_answering ?n) ''data:image/png;base64,TWFu'') = Inr JNull"
    using predictFromBase64_ok [OF relay_answer o(1)] o(2) by (simp add: try_catch_def)
  have "predictPaw_response ?n = Inr JNull"
    by (simp add: predictPaw_response_def json_response_def ok_def)
  then have g: "fst (predictPaw (client_answering ?n) png_file) = Inr JNull"
    using predictPaw_fetched [OF png_passes(1) png_small png_answering relay_answer]
    by (simp add: try_catch_def)
  show ?thesis
    by (simp add: relay_answer a c d o e g)
qed

text \<open>
  C6, as amended. The predict relay answers 500 "Server configuration error" when the API
  URL or the API key is missing, and 400 with an error body when the request body is JSON
  other than \<open>null\<close> whose \<open>image\<close> field is absent or falsy. Otherwise it forwards
  \<open>{ image }\<close> in one POST to the API's \<open>/predict\<close> that carries the key in
  \<open>X-API-Key\<close>. When the inference service answers 2xx with JSON, the relay answers
  200 with that JSON. When the service answers with a status that is not 2xx, the relay
  passes the status through (a status from 300 to 599 other than 304), but not the body:
  its body is \<open>{ error }\<close>, holding the service's \<open>error\<close> field when that is truthy,
  "Unknown error" when the service's body is no JSON, and "API error: " with the status
  when the body is JSON other than \<open>null\<close> whose \<open>error\<close> field is absent or falsy.
  It answers 500 "Internal server error" when the request body is no JSON or is
  \<open>null\<close>, when the forwarded request fails in transport, when a 2xx answer is no JSON,
  when an answer that is not 2xx has the body \<open>null\<close>, and when the status cannot be
  passed through.
\<close>

theorem predict_relay_contract:
  "(\<not> env_truthy (NEXT_PUBLIC_API_URL env) \<or> \<not> env_truthy (NEXT_PUBLIC_API_KEY env) \<longrightarrow>
      POST env body
        = (Inr \<lparr>reply_status = 500, reply_body = JObj [(''error'', JStr ''Server configuration error'')]\<rparr>,
           []))
   \<and> (env_truthy (NEXT_PUBLIC_API_URL env) \<and> env_truthy (NEXT_PUBLIC_API_KEY env) \<longrightarrow>
        (body = Inl x \<longrightarrow> POST env body = (Inr \<lparr>reply_status = 500, reply_body = JObj [(''error'', JStr ''Internal server error'')]\<rparr>, []))
        \<and> (body = Inr JNull \<longrightarrow> POST env body = (Inr \<lparr>reply_status = 500, reply_body = JObj [(''error'', JStr ''Internal server error'')]\<rparr>, []))
        \<and> (body = Inr b \<and> b \<noteq> JNull \<and> \<not> truthy_opt (prop_of b ''image'') \<longrightarrow>
             POST env body
               = (Inr \<lparr>reply_status = 400, reply_body = JObj [(''error'', JStr ''No image provided'')]\<rparr>,
                  []))
        \<and> (body = Inr (JObj kvs) \<and> map_of kvs ''image'' = Some img \<and> truthy img \<longrightarrow>
             snd (POST env body)
               = [Fetch \<lparr>req_url = env_string (NEXT_PUBLIC_API_URL env) @ ''/predict'',
                   req_method = ''POST'',
                   req_headers = [(''Content-Type'', ''application/json''),
                                  (''X-API-Key'', env_string (NEXT_PUBLIC_API_KEY env))],
                   req_body = Some (JObj [(''image'', img)])\<rparr>]
             \<and> (server_fetch env (forward_request env img) = Inl y \<longrightarrow> fst (POST env body) = Inr \<lparr>reply_status = 500, reply_body = JObj [(''error'', JStr ''Internal server error'')]\<rparr>)
             \<and> (server_fetch env (forward_request env img) = Inr r \<longrightarrow>
                  (ok r \<and> body_json r = Inr d \<longrightarrow>
                     fst (POST env body) = Inr \<lparr>reply_status = 200, reply_body = d\<rparr>)
                  \<and> (ok r \<and> body_json r = Inl z \<longrightarrow> fst (POST env body) = Inr \<lparr>reply_status = 500, reply_body = JObj [(''error'', JStr ''Internal server error'')]\<rparr>)
                  \<and> (\<not> ok r \<and> body_json r = Inr JNull \<longrightarrow> fst (POST env body) = Inr \<lparr>reply_status = 500, reply_body = JObj [(''error'', JStr ''Internal server error'')]\<rparr>)
                  \<and> (\<not> ok r \<and>
                     ((body_json r = Inr (JObj ekvs) \<and> map_of ekvs ''error'' = Some e \<and> truthy e \<and> E = e)
                      \<or> (body_json r = Inl z \<and> E = JStr ''Unknown error'')
                      \<or> (body_json r = Inr b' \<and> b' \<noteq> JNull \<and> \<not> truthy_opt (prop_of b' ''error'')
                          \<and> E = JStr (''API error: '' @ number_to_string (status r)))) \<longrightarrow>
                       (300 \<le> status r \<and> status r \<le> 599 \<and> status r \<noteq> 304 \<longrightarrow>
                          fst (POST env body)
                            = Inr \<lparr>reply_status = status r, reply_body = JObj [(''error'', E)]\<rparr>)
                       \<and> (status r < 200 \<or> 599 < status r \<or> status r = 304 \<longrightarrow>
                            fst (POST env body) = Inr \<lparr>reply_status = 500, reply_body = JObj [(''error'', JStr ''Internal server error'')]\<rparr>)))))"
proof (intro conjI impI)
  assume "\<not> env_truthy (NEXT_PUBLIC_API_URL env) \<or> \<not> env_truthy (NEXT_PUBLIC_API_KEY env)"
  then have "POST_try env body = (NextResponse_json (error_body ''Server configuration error'') 500, [])"
    by (simp add: POST_try_def)
  then show "POST env body
        = (Inr \<lparr>reply_status = 500, reply_body = JObj [(''error'', JStr ''Server configuration error'')]\<rparr>,
           [])"
    by (simp add: POST_def try_catch_def error_body_def)
next
  assume "env_truthy (NEXT_PUBLIC_API_URL env) \<and> env_truthy (NEXT_PUBLIC_API_KEY env)" "body = Inl x"
  then show "POST env body = (Inr \<lparr>reply_status = 500, reply_body = JObj [(''error'', JStr ''Internal server error'')]\<rparr>, [])"
    by (simp add: POST_unparseable_body)
next
  assume "env_truthy (NEXT_PUBLIC_API_URL env) \<and> env_truthy (NEXT_PUBLIC_API_KEY env)" "body = Inr JNull"
  then show "POST env body = (Inr \<lparr>reply_status = 500, reply_body = JObj [(''error'', JStr ''Internal server error'')]\<rparr>, [])"
    by (simp add: POST_null_body)
next
  assume "env_truthy (NEXT_PUBLIC_API_URL env) \<and> env_truthy (NEXT_PUBLIC_API_KEY env)" "body = Inr b \<and> b \<noteq> JNull \<and> \<not> truthy_opt (prop_of b ''image'')"
  then show "POST env body
               = (Inr \<lparr>reply_status = 400, reply_body = JObj [(''error'', JStr ''No image provided'')]\<rparr>,
                  [])"
    by (simp add: POST_no_image)
next
  assume c: "env_truthy (NEXT_PUBLIC_API_URL env) \<and> env_truthy (NEXT_PUBLIC_API_KEY env)"
    and i: "body = Inr (JObj kvs) \<and> map_of kvs ''image'' = Some img \<and> truthy img"
  then have "snd (POST env body) = [Fetch (forward_request env img)]"
    using POST_forwarded(1) [of env body kvs img] by blast
  then show "snd (POST env body)
               = [Fetch \<lparr>req_url = env_string (NEXT_PUBLIC_API_URL env) @ ''/predict'',
                   req_method = ''POST'',
                   req_headers = [(''Content-Type'', ''application/json''),
                                  (''X-API-Key'', env_string (NEXT_PUBLIC_API_KEY env))],
                   req_body = Some (JObj [(''image'', img)])\<rparr>]"
    by (simp add: forward_request_def)
next
  assume c: "env_truthy (NEXT_PUBLIC_API_URL env) \<and> env_truthy (NEXT_PUBLIC_API_KEY env)"
    and i: "body = Inr (JObj kvs) \<and> map_of kvs ''image'' = Some img \<and> truthy img"
    and f: "server_fetch env (forward_request env img) = Inl y"
  then show "fst (POST env body) = Inr \<lparr>reply_status = 500, reply_body = JObj [(''error'', JStr ''Internal server error'')]\<rparr>"
    using POST_forwarded(3) [of env body kvs img y] by blast
next
  assume c: "env_truthy (NEXT_PUBLIC_API_URL env) \<and> env_truthy (NEXT_PUBLIC_API_KEY env)"
    and i: "body = Inr (JObj kvs) \<and> map_of kvs ''image'' = Some img \<and> truthy img"
    and f: "server_fetch env (forward_request env img) = Inr r"
    and o: "ok r \<and> body_json r = Inr d"
  from c i f have "fst (POST env body) =
      try_catch (POST_response r) (\<lambda>e. NextResponse_json (error_body ''Internal server error'') 500)"
    using POST_forwarded(2) [of env body kvs img r] by blast
  with o show "fst (POST env body) = Inr \<lparr>reply_status = 200, reply_body = d\<rparr>"
    by (simp add: POST_response_ok try_catch_def)
next
  assume c: "env_truthy (NEXT_PUBLIC_API_URL env) \<and> env_truthy (NEXT_PUBLIC_API_KEY env)"
    and i: "body = Inr (JObj kvs) \<and> map_of kvs ''image'' = Some img \<and> truthy img"
    and f: "server_fetch env (forward_request env img) = Inr r"
    and o: "ok r \<and> body_json r = Inl z"
  from c i f have "fst (POST env body) =
      try_catch (POST_response r) (\<lambda>e. NextResponse_json (error_body ''Internal server error'') 500)"
    using POST_forwarded(2) [of env body kvs img r] by blast
  with o show "fst (POST env body) = Inr \<lparr>reply_status = 500, reply_body = JObj [(''error'', JStr ''Internal server error'')]\<rparr>"
    using POST_response_ok_unparseable [of r z] by (simp add: try_catch_def error_body_def)
next
  assume c: "env_truthy (NEXT_PUBLIC_API_URL env) \<and> env_truthy (NEXT_PUBLIC_API_KEY env)"
    and i: "body = Inr (JObj kvs) \<and> map_of kvs ''image'' = Some img \<and> truthy img"
    and f: "server_fetch env (forward_request env img) = Inr r"
    and o: "\<not> ok r \<and> body_json r = Inr JNull"
  from c i f have p: "fst (POST env body) =
      try_catch (POST_response r) (\<lambda>e. NextResponse_json (error_body ''Internal server error'') 500)"
    using POST_forwarded(2) [of env body kvs img r] by blast
  from o obtain e' where "POST_response r = Inl e'"
    using POST_response_null [of r] by blast
  with p show "fst (POST env body) = Inr \<lparr>reply_status = 500, reply_body = JObj [(''error'', JStr ''Internal server error'')]\<rparr>"
    by (simp add: try_catch_def error_body_def)
next
  assume c: "env_truthy (NEXT_PUBLIC_API_URL env) \<and> env_truthy (NEXT_PUBLIC_API_KEY env)"
    and i: "body = Inr (JObj kvs) \<and> map_of kvs ''image'' = Some img \<and> truthy img"
    and f: "server_fetch env (forward_request env img) = Inr r"
    and o: "\<not> ok r \<and>
                     ((body_json r = Inr (JObj ekvs) \<and> map_of ekvs ''error'' = Some e \<and> truthy e \<and> E = e)
                      \<or> (body_json r = Inl z \<and> E = JStr ''Unknown error'')
                      \<or> (body_json r = Inr b' \<and> b' \<noteq> JNull \<and> \<not> truthy_opt (prop_of b' ''error'')
                          \<and> E = JStr (''API error: '' @ number_to_string (status r))))"
    and s: "300 \<le> status r \<and> status r \<le> 599 \<and> status r \<noteq> 304"
  from c i f have p: "fst (POST env body) =
      try_catch (POST_response r) (\<lambda>e. NextResponse_json (error_body ''Internal server error'') 500)"
    using POST_forwarded(2) [of env body kvs img r] by blast
  from o have "POST_response r = NextResponse_json (JObj [(''error'', E)]) (status r)"
    using POST_response_rebuilt [of r ekvs e E z b'] by blast
  with s p show "fst (POST env body) = Inr \<lparr>reply_status = status r, reply_body = JObj [(''error'', E)]\<rparr>"
    by (simp add: NextResponse_json_error_status try_catch_def)
next
  assume c: "env_truthy (NEXT_PUBLIC_API_URL env) \<and> env_truthy (NEXT_PUBLIC_API_KEY env)"
    and i: "body = Inr (JObj kvs) \<and> map_of kvs ''image'' = Some img \<and> truthy img"
    and f: "server_fetch env (forward_request env img) = Inr r"
    and o: "\<not> ok r \<and>
                     ((body_json r = Inr (JObj ekvs) \<and> map_of ekvs ''error'' = Some e \<and> truthy e \<and> E = e)
                      \<or> (body_json r = Inl z \<and> E = JStr ''Unknown error'')
                      \<or> (body_json r = Inr b' \<and> b' \<noteq> JNull \<and> \<not> truthy_opt (prop_of b' ''error'')
                          \<and> E = JStr (''API error: '' @ number_to_string (status r))))"
    and s: "status r < 200 \<or> 599 < status r \<or> status r = 304"
  from c i f have p: "fst (POST env body) =
      try_catch (POST_response r) (\<lambda>e. NextResponse_json (error_body ''Internal server error'') 500)"
    using POST_forwarded(2) [of env body kvs img r] by blast
  from o have "POST_response r = NextResponse_json (JObj [(''error'', E)]) (status r)"
    using POST_response_rebuilt [of r ekvs e E z b'] by blast
  moreover from s obtain e' where "NextResponse_json (JObj [(''error'', E)]) (status r) = Inl e'"
    using NextResponse_json_throws [of "status r" "JObj [(''error'', E)]"] by blast
  ultimately show "fst (POST env body) = Inr \<lparr>reply_status = 500, reply_body = JObj [(''error'', JStr ''Internal server error'')]\<rparr>"
    using p by (simp add: try_catch_def error_body_def)
qed

theorem predict_relay_contract_witness:
  "POST server_unconfigured image_body
     = (Inr \<lparr>reply_status = 500, reply_body = JObj [(''error'', JStr ''Server configuration error'')]\<rparr>, [])
   \<and> POST server_offline (Inl (ErrorObject ''Unexpected end of JSON input''))
     = (Inr \<lparr>reply_status = 500, reply_body = JObj [(''error'', JStr ''Internal server error'')]\<rparr>, [])
   \<and> POST server_offline (Inr JNull)
     = (Inr \<lparr>reply_status = 500, reply_body = JObj [(''error'', JStr ''Internal server error'')]\<rparr>, [])
   \<and> POST server_offline (Inr (JObj []))
     = (Inr \<lparr>reply_status = 400, reply_body = JObj [(''error'', JStr ''No image provided'')]\<rparr>, [])
   \<and> POST server_offline image_body
     = (Inr \<lparr>reply_status = 500, reply_body = JObj [(''error'', JStr ''Internal server error'')]\<rparr>,
        [Fetch \<lparr>req_url = ''https://api.example/predict'', req_method = ''POST'',
                req_headers = [(''Content-Type'', ''application/json''), (''X-API-Key'', ''secret'')],
                req_body = Some (JObj [(''image'', JStr ''data:image/png;base64,TWFu'')])\<rparr>])
   \<and> fst (POST (server_answering (json_response 200 (JObj [(''predictions'', JArr [golden])]))) image_body)
     = Inr \<lparr>reply_status = 200, reply_body = JObj [(''predictions'', JArr [golden])]\<rparr>
   \<and> fst (POST (server_answering (html_response 200)) image_body)
     = Inr \<lparr>reply_status = 500, reply_body = JObj [(''error'', JStr ''Internal server error'')]\<rparr>
   \<and> fst (POST (server_answering (json_response 500 JNull)) image_body)
     = Inr \<lparr>reply_status = 500, reply_body = JObj [(''error'', JStr ''Internal server error'')]\<rparr>
   \<and> fst (POST (server_answering (json_response 400 invalid_image_json)) image_body)
     = Inr \<lparr>reply_status = 400, reply_body = JObj [(''error'', JStr ''Invalid image'')]\<rparr>
   \<and> fst (POST (server_answering (html_response 502)) image_body)
     = Inr \<lparr>reply_status = 502, reply_body = JObj [(''error'', JStr ''Unknown error'')]\<rparr>
   \<and> fst (POST (server_answering (json_response 500 (JObj [(''message'', JStr ''boom'')]))) image_body)
     = Inr \<lparr>reply_status = 500, reply_body = JObj [(''error'', JStr ''API error: 500'')]\<rparr>
   \<and> fst (POST (server_answering (json_response 304 invalid_image_json)) image_body)
     = Inr \<lparr>reply_status = 500, reply_body = JObj [(''error'', JStr ''Internal server error'')]\<rparr>"
proof -
  let ?img = "JStr ''data:image/png;base64,TWFu''"
  let ?kvs = "[(''image'', ?img)]"
  let ?d = "JObj [(''predictions'', JArr [golden])]"
  let ?ekvs = "[(''error'', JStr ''Invalid image''), (''detail'', JStr ''too small'')]"
  let ?x = "ErrorObject ''Unexpected token < in JSON at position 0''"
  let ?y = "ErrorObject ''fetch failed''"
  let ?m = "JObj [(''message'', JStr ''boom'')]"
  let ?r1 = "json_response 200 ?d"
  let ?r2 = "html_response 200"
  let ?r3 = "json_response 500 JNull"
  let ?r4 = "json_response 400 invalid_image_json"
  let ?r5 = "html_response 502"
  let ?r6 = "json_response 500 ?m"
  let ?r7 = "json_response 304 invalid_image_json"
  have u: "\<not> env_truthy (NEXT_PUBLIC_API_URL server_unconfigured)"
    by (simp add: server_unconfigured_def)
  have o: "env_truthy (NEXT_PUBLIC_API_URL server_offline) \<and> env_truthy (NEXT_PUBLIC_API_KEY server_offline)"
    "server_fetch server_offline (forward_request server_offline ?img) = Inl ?y"
    by (simp_all add: server_offline_def)
  have k: "image_body = Inr (JObj ?kvs) \<and> map_of ?kvs ''image'' = Some ?img \<and> truthy ?img"
    by (simp add: image_body_def)
  have e: "Inr (JObj []) = Inr (JObj []) \<and> JObj [] \<noteq> JNull \<and> \<not> truthy_opt (prop_of (JObj []) ''image'')"
    by (simp add: prop_of_def)
  have h1: "ok ?r1 \<and> body_json ?r1 = Inr ?d"
    by (simp add: json_response_def ok_def)
  have h2: "ok ?r2 \<and> body_json ?r2 = Inl ?x"
    by (simp add: html_response_def ok_def)
  have h3: "\<not> ok ?r3 \<and> body_json ?r3 = Inr JNull"
    by (simp add: json_response_def ok_def)
  have h4: "\<not> ok ?r4 \<and> body_json ?r4 = Inr (JObj ?ekvs) \<and> map_of ?ekvs ''error'' = Some (JStr ''Invalid image'')
            \<and> truthy (JStr ''Invalid image'') \<and> JStr ''Invalid image'' = JStr ''Invalid image''"
    "300 \<le> status ?r4 \<and> status ?r4 \<le> 599 \<and> status ?r4 \<noteq> 304"
    by (simp_all add: json_response_def invalid_image_json_def ok_def)
  have h5: "\<not> ok ?r5 \<and> body_json ?r5 = Inl ?x \<and> JStr ''Unknown error'' = JStr ''Unknown error''"
    "300 \<le> status ?r5 \<and> status ?r5 \<le> 599 \<and> status ?r5 \<noteq> 304"
    by (simp_all add: html_response_def ok_def)
  have h6: "\<not> ok ?r6 \<and> body_json ?r6 = Inr ?m \<and> ?m \<noteq> JNull \<and> \<not> truthy_opt (prop_of ?m ''error'')
            \<and> JStr ''API error: 500'' = JStr (''API error: '' @ number_to_string (status ?r6))"
    "300 \<le> status ?r6 \<and> status ?r6 \<le> 599 \<and> status ?r6 \<noteq> 304"
    by (simp_all add: json_response_def ok_def prop_of_def number_to_string_500)
  have h7: "\<not> ok ?r7 \<and> body_json ?r7 = Inr (JObj ?ekvs) \<and> map_of ?ekvs ''error'' = Some (JStr ''Invalid image'')
            \<and> truthy (JStr ''Invalid image'') \<and> JStr ''Invalid image'' = JStr ''Invalid image''"
    "status ?r7 = 304"
    by (simp_all add: json_response_def invalid_image_json_def ok_def)
  from predict_relay_contract [where env = server_unconfigured and body = image_body and
      x = "ErrorObject []" and b = JNull and kvs = "[]" and img = JNull and
      y = "ErrorObject []" and r = "json_response 200 JNull" and d = JNull and
      z = "ErrorObject []" and ekvs = "[]" and e = JNull and E = JNull and b' = JNull] u
  have c1: "POST server_unconfigured image_body
     = (Inr \<lparr>reply_status = 500, reply_body = JObj [(''error'', JStr ''Server configuration error'')]\<rparr>, [])"
    by simp
  from predict_relay_contract [where env = server_offline and
      body = "Inl (ErrorObject ''Unexpected end of JSON input'')" and
      x = "ErrorObject ''Unexpected end of JSON input''" and b = JNull and kvs = "[]" and
      img = JNull and y = "ErrorObject []" and r = "json_response 200 JNull" and d = JNull and
      z = "ErrorObject []" and ekvs = "[]" and e = JNull and E = JNull and b' = JNull] o(1)
  have c2: "POST server_offline (Inl (ErrorObject ''Unexpected end of JSON input''))
     = (Inr \<lparr>reply_status = 500, reply_body = JObj [(''error'', JStr ''Internal server error'')]\<rparr>, [])"
    by simp
  from predict_relay_contract [where env = server_offline and body = "Inr JNull" and
      x = "ErrorObject []" and b = JNull and kvs = "[]" and img = JNull and
      y = "ErrorObject []" and r = "json_response 200 JNull" and d = JNull and
      z = "ErrorObject []" and ekvs = "[]" and e = JNull and E = JNull and b' = JNull] o(1)
  have c3: "POST server_offline (Inr JNull)
     = (Inr \<lparr>reply_status = 500, reply_body = JObj [(''error'', JStr ''Internal server error'')]\<rparr>, [])"
    by simp
  from predict_relay_contract [where env = server_offline and body = "Inr (JObj [])" and
      x = "ErrorObject []" and b = "JObj []" and kvs = "[]" and img = JNull and
      y = "ErrorObject []" and r = "json_response 200 JNull" and d = JNull and
      z = "ErrorObject []" and ekvs = "[]" and e = JNull and E = JNull and b' = JNull] o(1) e
  have c4: "POST server_offline (Inr (JObj []))
     = (Inr \<lparr>reply_status = 400, reply_body = JObj [(''error'', JStr ''No image provided'')]\<rparr>, [])"
    by simp
  from predict_relay_contract [where env = server_offline and body = image_body and
      x = "ErrorObject []" and b = JNull and kvs = ?kvs and img = ?img and y = ?y and
      r = "json_response 200 JNull" and d = JNull and z = "ErrorObject []" and ekvs = "[]" and
      e = JNull and E = JNull and b' = JNull] o k
  have "snd (POST server_offline image_body)
     = [Fetch \<lparr>req_url = env_string (NEXT_PUBLIC_API_URL server_offline) @ ''/predict'',
               req_method = ''POST'',
               req_headers = [(''Content-Type'', ''application/json''),
                              (''X-API-Key'', env_string (NEXT_PUBLIC_API_KEY server_offline))],
               req_body = Some (JObj [(''image'', ?img)])\<rparr>]
     \<and> fst (POST server_offline image_body)
       = Inr \<lparr>reply_status = 500, reply_body = JObj [(''error'', JStr ''Internal server error'')]\<rparr>"
    by simp
  then have c5: "POST server_offline image_body
     = (Inr \<lparr>reply_status = 500, reply_body = JObj [(''error'', JStr ''Internal server error'')]\<rparr>,
        [Fetch \<lparr>req_url = ''https://api.example/predict'', req_method = ''POST'',
                req_headers = [(''Content-Type'', ''application/json''), (''X-API-Key'', ''secret'')],
                req_body = Some (JObj [(''image'', ?img)])\<rparr>])"
    by (cases "POST server_offline image_body") (simp add: server_offline_def)
  from predict_relay_contract [where env = "server_answering ?r1" and body = image_body and
      x = "ErrorObject []" and b = JNull and kvs = ?kvs and img = ?img and y = "ErrorObject []" and
      r = ?r1 and d = ?d and z = "ErrorObject []" and ekvs = "[]" and e = JNull and E = JNull and
      b' = JNull]
    k h1 server_answering_configured [of ?r1] server_answer [of ?r1]
  have c6: "fst (POST (server_answering ?r1) image_body) = Inr \<lparr>reply_status = 200, reply_body = ?d\<rparr>"
    by simp
  from predict_relay_contract [where env = "server_answering ?r2" and body = image_body and
      x = "ErrorObject []" and b = JNull and kvs = ?kvs and img = ?img and y = "ErrorObject []" and
      r = ?r2 and d = JNull and z = ?x and ekvs = "[]" and e = JNull and E = JNull and b' = JNull]
    k h2 server_answering_configured [of ?r2] server_answer [of ?r2]
  have c7: "fst (POST (server_answering ?r2) image_body)
     = Inr \<lparr>reply_status = 500, reply_body = JObj [(''error'', JStr ''Internal server error'')]\<rparr>"
    by simp
  from predict_relay_contract [where env = "server_answering ?r3" and body = image_body and
      x = "ErrorObject []" and b = JNull and kvs = ?kvs and img = ?img and y = "ErrorObject []" and
      r = ?r3 and d = JNull and z = "ErrorObject []" and ekvs = "[]" and e = JNull and
      E = JNull and b' = JNull]
    k h3 server_answering_configured [of ?r3] server_answer [of ?r3]
  have c8: "fst (POST (server_answering ?r3) image_body)
     = Inr \<lparr>reply_status = 500, reply_body = JObj [(''error'', JStr ''Internal server error'')]\<rparr>"
    by simp
  from predict_relay_contract [where env = "server_answering ?r4" and body = image_body and
      x = "ErrorObject []" and b = JNull and kvs = ?kvs and img = ?img and y = "ErrorObject []" and
      r = ?r4 and d = JNull and z = "ErrorObject []" and ekvs = ?ekvs and
      e = "JStr ''Invalid image''" and E = "JStr ''Invalid image''" and b' = JNull]
    k h4 server_answering_configured [of ?r4] server_answer [of ?r4]
  have c9: "fst (POST (server_answering ?r4) image_body)
              = Inr \<lparr>reply_status = status ?r4, reply_body = JObj [(''error'', JStr ''Invalid image'')]\<rparr>"
    by simp
  from predict_relay_contract [where env = "server_answering ?r5" and body = image_body and
      x = "ErrorObject []" and b = JNull and kvs = ?kvs and img = ?img and y = "ErrorObject []" and
      r = ?r5 and d = JNull and z = ?x and ekvs = "[]" and e = JNull and
      E = "JStr ''Unknown error''" and b' = JNull]
    k h5 server_answering_configured [of ?r5] server_answer [of ?r5]
  have c10: "fst (POST (server_answering ?r5) image_body)
              = Inr \<lparr>reply_status = status ?r5, reply_body = JObj [(''error'', JStr ''Unknown error'')]\<rparr>"
    by simp
  from predict_relay_contract [where env = "server_answering ?r6" and body = image_body and
      x = "ErrorObject []" and b = JNull and kvs = ?kvs and img = ?img and y = "ErrorObject []" and
      r = ?r6 and d = JNull and z = "ErrorObject []" and ekvs = "[]" and e = JNull and
      E = "JStr ''API error: 500''" and b' = ?m]
    k h6 server_answering_configured [of ?r6] server_answer [of ?r6]
  have c11: "fst (POST (server_answering ?r6) image_body)
              = Inr \<lparr>reply_status = status ?r6, reply_body = JObj [(''error'', JStr ''API error: 500'')]\<rparr>"
    by simp
  from predict_relay_contract [where env = "server_answering ?r7" and body = image_body and
      x = "ErrorObject []" and b = JNull and kvs = ?kvs and img = ?img and y = "ErrorObject []" and
      r = ?r7 and d = JNull and z = "ErrorObject []" and ekvs = ?ekvs and
      e = "JStr ''Invalid image''" and E = "JStr ''Invalid image''" and b' = JNull]
    k h7 server_answering_configured [of ?r7] server_answer [of ?r7]
  have c12: "fst (POST (server_answering ?r7) image_body)
     = Inr \<lparr>reply_status = 500, reply_body = JObj [(''error'', JStr ''Internal server error'')]\<rparr>"
    by simp
  have s: "status ?r4 = 400" "status ?r5 = 502" "status ?r6 = 500"
    by (simp_all add: json_response_def html_response_def)
  from c1 c2 c3 c4 c5 c6 c7 c8 c9 c10 c11 c12 show ?thesis
    by (simp add: s)
qed

theorem predict_relay_contract_counterexample:
  "server_fetch (server_answering (json_response 400 invalid_image_json))
       (forward_request (server_answering (json_response 400 invalid_image_json))
          (JStr ''data:image/png;base64,TWFu''))
     = Inr (json_response 400 invalid_image_json)
   \<and> \<not> ok (json_response 400 invalid_image_json)
   \<and> body_json (json_response 400 invalid_image_json)
       = Inr (JObj [(''error'', JStr ''Invalid image''), (''detail'', JStr ''too small'')])
   \<and> fst (POST (server_answering (json_response 400 invalid_image_json)) image_body)
       = Inr \<lparr>reply_status = 400, reply_body = JObj [(''error'', JStr ''Invalid image'')]\<rparr>
   \<and> JObj [(''error'', JStr ''Invalid image'')]
       \<noteq> JObj [(''error'', JStr ''Invalid image''), (''detail'', JStr ''too small'')]"
proof -
  let ?r = "json_response 400 invalid_image_json"
  have a: "\<not> ok ?r"
    by (simp add: json_response_def ok_def)
  have b: "body_json ?r = Inr (JObj [(''error'', JStr ''Invalid image''), (''detail'', JStr ''too small'')])"
    by (simp add: json_response_def invalid_image_json_def)
  have p: "POST_response ?r = Inr \<lparr>reply_status = status ?r, reply_body = JObj [(''error'', JStr ''Invalid image'')]\<rparr>"
    by (rule POST_response_field [OF _ _ _ b]) (simp_all add: json_response_def)
  have c: "fst (POST (server_answering ?r) image_body)
       = Inr \<lparr>reply_status = 400, reply_body = JObj [(''error'', JStr ''Invalid image'')]\<rparr>"
    using POST_forwarded(2) [OF server_answering_configured(1,2) _ _ _ server_answer, of image_body
        "[(''image'', JStr ''data:image/png;base64,TWFu'')]" "JStr ''data:image/png;base64,TWFu''" ?r]
    by (simp add: image_body_def p try_catch_def) (simp add: json_response_def)
  show ?thesis
    by (simp add: server_answer a b c)
qed






text \<open>
  C9, as amended. On a response that is not ok (in direct mode: one whose status is none
  of 429, 401 and 403) the result's \<open>error\<close> is: "Unknown error" when the body is no
  JSON; the body's \<open>error\<close> field, rendered as a string, when the body is an object
  whose \<open>error\<close> field is truthy and can be rendered; "HTTP error! status: " followed
  by the status when the body is JSON other than \<open>null\<close> and its \<open>error\<close> field is
  absent or falsy; and the message of the \<open>TypeError\<close> that is thrown when the body is
  \<open>null\<close> or when the truthy \<open>error\<close> field cannot be rendered.
\<close>

theorem http_error_message:
  "\<not> ok r \<and>
   ((body_json r = Inl e \<and> m = ''Unknown error'')
    \<or> (body_json r = Inr (JObj kvs) \<and> map_of kvs ''error'' = Some v \<and> truthy v \<and> to_string v = Inr m)
    \<or> (body_json r = Inr b \<and> b \<noteq> JNull \<and> \<not> truthy_opt (prop_of b ''error'')
        \<and> m = ''HTTP error! status: '' @ number_to_string (status r))
    \<or> (body_json r = Inr JNull
        \<and> m = ''Cannot read properties of null (reading '' @ [CHR 0x27] @ ''error'' @ [CHR 0x27] @ '')'')
    \<or> (body_json r = Inr (JObj kvs) \<and> map_of kvs ''error'' = Some v \<and> truthy v \<and> to_string v = Inl t
        \<and> m = ''Cannot convert object to primitive value''))
   \<longrightarrow>
     (fetch env (relay_request img) = Inr r \<longrightarrow>
        fst (predictFromBase64 env img) = Inr (JObj [(''error'', JStr m)]))
     \<and> (startsWith (blob_type f) ''image/'' \<and> blob_size f \<le> 5 * 1024 * 1024
         \<and> fileToBase64 env f = Inr b64 \<and> fetch env (predict_request env b64) = Inr r
         \<and> status r \<noteq> 429 \<and> status r \<noteq> 401 \<and> status r \<noteq> 403 \<longrightarrow>
        fst (predictPaw env f) = Inr (JObj [(''error'', JStr m)]))"
proof (intro impI)
  assume a: "\<not> ok r \<and>
   ((body_json r = Inl e \<and> m = ''Unknown error'')
    \<or> (body_json r = Inr (JObj kvs) \<and> map_of kvs ''error'' = Some v \<and> truthy v \<and> to_string v = Inr m)
    \<or> (body_json r = Inr b \<and> b \<noteq> JNull \<and> \<not> truthy_opt (prop_of b ''error'')
        \<and> m = ''HTTP error! status: '' @ number_to_string (status r))
    \<or> (body_json r = Inr JNull
        \<and> m = ''Cannot read properties of null (reading '' @ [CHR 0x27] @ ''error'' @ [CHR 0x27] @ '')'')
    \<or> (body_json r = Inr (JObj kvs) \<and> map_of kvs ''error'' = Some v \<and> truthy v \<and> to_string v = Inl t
        \<and> m = ''Cannot convert object to primitive value''))"
  then have nok: "\<not> ok r" by simp
  from a have t: "throw_http_error r = ErrorObject m"
    using throw_http_error_unparseable [of r e] throw_http_error_field [of r kvs v m]
      throw_http_error_generic [of r b] throw_http_error_null [of r]
      throw_http_error_unrenderable [of r kvs v t]
    by blast
  have relayed: "fst (predictFromBase64 env img) = Inr (JObj [(''error'', JStr m)])"
    if "fetch env (relay_request img) = Inr r"
    using predictFromBase64_not_ok [OF that nok] t by simp
  have direct: "fst (predictPaw env f) = Inr (JObj [(''error'', JStr m)])"
    if d: "startsWith (blob_type f) ''image/'' \<and> blob_size f \<le> 5 * 1024 * 1024
         \<and> fileToBase64 env f = Inr b64 \<and> fetch env (predict_request env b64) = Inr r
         \<and> status r \<noteq> 429 \<and> status r \<noteq> 401 \<and> status r \<noteq> 403"
  proof -
    from d nok have "predictPaw_response r = Inl (throw_http_error r)"
      by (simp add: predictPaw_response_def)
    with d t show ?thesis
      using predictPaw_fetched [of f env b64 r] by (simp add: try_catch_def)
  qed
  from relayed direct
  show "(fetch env (relay_request img) = Inr r \<longrightarrow>
        fst (predictFromBase64 env img) = Inr (JObj [(''error'', JStr m)]))
     \<and> (startsWith (blob_type f) ''image/'' \<and> blob_size f \<le> 5 * 1024 * 1024
         \<and> fileToBase64 env f = Inr b64 \<and> fetch env (predict_request env b64) = Inr r
         \<and> status r \<noteq> 429 \<and> status r \<noteq> 401 \<and> status r \<noteq> 403 \<longrightarrow>
        fst (predictPaw env f) = Inr (JObj [(''error'', JStr m)]))"
    by blast
qed

theorem http_error_message_witness:
  "fst (predictFromBase64 (client_answering (html_response 500)) ''data:image/png;base64,TWFu'')
     = Inr (JObj [(''error'', JStr ''Unknown error'')])
   \<and> fst (predictPaw (client_answering (html_response 500)) png_file)
     = Inr (JObj [(''error'', JStr ''Unknown error'')])
   \<and> fst (predictFromBase64 (client_answering (json_response 500 (JObj [(''error'', JStr ''boom'')])))
          ''data:image/png;base64,TWFu'')
     = Inr (JObj [(''error'', JStr ''boom'')])
   \<and> fst (predictFromBase64
          (client_answering (json_response 500 (JObj [(''error'', JArr [JStr ''a'', JNull, JNum ''1''])])))
          ''data:image/png;base64,TWFu'')
     = Inr (JObj [(''error'', JStr ''a,,1'')])
   \<and> fst (predictFromBase64 (client_answering (json_response 500 (JObj [(''message'', JStr ''boom'')])))
          ''data:image/png;base64,TWFu'')
     = Inr (JObj [(''error'', JStr ''HTTP error! status: 500'')])
   \<and> fst (predictFromBase64 (client_answering (json_response 500 JNull)) ''data:image/png;base64,TWFu'')
     = Inr (JObj [(''error'',
                   JStr (''Cannot read properties of null (reading '' @ [CHR 0x27] @ ''error''
                         @ [CHR 0x27] @ '')''))])
   \<and> fst (predictFromBase64
          (client_answering (json_response 500 (JObj [(''error'', JObj [(''toString'', JNum ''1'')])])))
          ''data:image/png;base64,TWFu'')
     = Inr (JObj [(''error'', JStr ''Cannot convert object to primitive value'')])"
proof -
  let ?img = "''data:image/png;base64,TWFu''"
  let ?x = "ErrorObject ''Unexpected token < in JSON at position 0''"
  let ?arr = "JArr [JStr ''a'', JNull, JNum ''1'']"
  let ?obj = "JObj [(''toString'', JNum ''1'')]"
  let ?nullmsg = "''Cannot read properties of null (reading '' @ [CHR 0x27] @ ''error'' @ [CHR 0x27] @ '')''"
  let ?r1 = "html_response 500"
  let ?r2 = "json_response 500 (JObj [(''error'', JStr ''boom'')])"
  let ?r3 = "json_response 500 (JObj [(''error'', ?arr)])"
  let ?r4 = "json_response 500 (JObj [(''message'', JStr ''boom'')])"
  let ?r5 = "json_response 500 JNull"
  let ?r6 = "json_response 500 (JObj [(''error'', ?obj)])"
  have h1: "\<not> ok ?r1 \<and> body_json ?r1 = Inl ?x
            \<and> status ?r1 \<noteq> 429 \<and> status ?r1 \<noteq> 401 \<and> status ?r1 \<noteq> 403"
    by (simp add: html_response_def ok_def)
  have h2: "\<not> ok ?r2 \<and> body_json ?r2 = Inr (JObj [(''error'', JStr ''boom'')])
            \<and> map_of [(''error'', JStr ''boom'')] ''error'' = Some (JStr ''boom'')
            \<and> truthy (JStr ''boom'') \<and> to_string (JStr ''boom'') = Inr ''boom''"
    by (simp add: json_response_def ok_def)
  have h3: "\<not> ok ?r3 \<and> body_json ?r3 = Inr (JObj [(''error'', ?arr)])
            \<and> map_of [(''error'', ?arr)] ''error'' = Some ?arr
            \<and> truthy ?arr \<and> to_string ?arr = Inr ''a,,1''"
    by (simp add: json_response_def ok_def)
  have h4: "\<not> ok ?r4 \<and> body_json ?r4 = Inr (JObj [(''message'', JStr ''boom'')])
            \<and> JObj [(''message'', JStr ''boom'')] \<noteq> JNull
            \<and> \<not> truthy_opt (prop_of (JObj [(''message'', JStr ''boom'')]) ''error'')
            \<and> ''HTTP error! status: 500'' = ''HTTP error! status: '' @ number_to_string (status ?r4)"
    by (simp add: json_response_def ok_def prop_of_def number_to_string_500)
  have h5: "\<not> ok ?r5 \<and> body_json ?r5 = Inr JNull"
    by (simp add: json_response_def ok_def)
  have h6: "\<not> ok ?r6 \<and> body_json ?r6 = Inr (JObj [(''error'', ?obj)])
            \<and> map_of [(''error'', ?obj)] ''error'' = Some ?obj
            \<and> truthy ?obj
            \<and> to_string ?obj = Inl (ErrorObject ''Cannot convert object to primitive value'')"
    by (simp add: json_response_def ok_def)
  from http_error_message [where r = ?r1 and e = ?x and m = "''Unknown error''"
      and env = "client_answering ?r1" and img = ?img and f = png_file and ?b64.0 = ?img]
    h1 relay_answer [of ?r1] png_passes(1) png_small png_answering [of ?r1]
  have c1: "fst (predictFromBase64 (client_answering ?r1) ?img)
              = Inr (JObj [(''error'', JStr ''Unknown error'')])
            \<and> fst (predictPaw (client_answering ?r1) png_file)
              = Inr (JObj [(''error'', JStr ''Unknown error'')])"
    by blast
  from http_error_message [where r = ?r2 and m = "''boom''" and kvs = "[(''error'', JStr ''boom'')]"
      and v = "JStr ''boom''" and env = "client_answering ?r2" and img = ?img]
    h2 relay_answer [of ?r2]
  have c2: "fst (predictFromBase64 (client_answering ?r2) ?img) = Inr (JObj [(''error'', JStr ''boom'')])"
    by blast
  from http_error_message [where r = ?r3 and m = "''a,,1''" and kvs = "[(''error'', ?arr)]"
      and v = ?arr and env = "client_answering ?r3" and img = ?img]
    h3 relay_answer [of ?r3]
  have c3: "fst (predictFromBase64 (client_answering ?r3) ?img) = Inr (JObj [(''error'', JStr ''a,,1'')])"
    by blast
  from http_error_message [where r = ?r4 and m = "''HTTP error! status: 500''"
      and b = "JObj [(''message'', JStr ''boom'')]" and env = "client_answering ?r4" and img = ?img]
    h4 relay_answer [of ?r4]
  have c4: "fst (predictFromBase64 (client_answering ?r4) ?img)
              = Inr (JObj [(''error'', JStr ''HTTP error! status: 500'')])"
    by blast
  from http_error_message [where r = ?r5 and m = ?nullmsg and env = "client_answering ?r5" and img = ?img]
    h5 relay_answer [of ?r5]
  have c5: "fst (predictFromBase64 (client_answering ?r5) ?img) = Inr (JObj [(''error'', JStr ?nullmsg)])"
    by blast
  from http_error_message [where r = ?r6 and m = "''Cannot convert object to primitive value''"
      and kvs = "[(''error'', ?obj)]" and v = ?obj
      and t = "ErrorObject ''Cannot convert object to primitive value''"
      and env = "client_answering ?r6" and img = ?img]
    h6 relay_answer [of ?r6]
  have c6: "fst (predictFromBase64 (client_answering ?r6) ?img)
              = Inr (JObj [(''error'', JStr ''Cannot convert object to primitive value'')])"
    by blast
  from c1 c2 c3 c4 c5 c6 show ?thesis by blast
qed

theorem http_error_message_counterexample:
  "fetch (client_answering (html_response 500)) (relay_request ''data:image/png;base64,TWFu'')
     = Inr (html_response 500)
   \<and> status (html_response 500) = 500
   \<and> \<not> ok (html_response 500)
   \<and> body_json (html_response 500) = Inl (ErrorObject ''Unexpected token < in JSON at position 0'')
   \<and> fst (predictFromBase64 (client_answering (html_response 500)) ''data:image/png;base64,TWFu'')
       = Inr (JObj [(''error'', JStr ''Unknown error'')])
   \<and> fst (predictFromBase64 (client_answering (html_response 500)) ''data:image/png;base64,TWFu'')
       \<noteq> Inr (JObj [(''error'', JStr (''HTTP error! status: '' @ number_to_string 500))])"
proof -
  have a: "\<not> ok (html_response 500)"
    by (simp add: html_response_def ok_def)
  have b: "body_json (html_response 500) = Inl (ErrorObject ''Unexpected token < in JSON at position 0'')"
    by (simp add: html_response_def)
  have c: "fst (predictFromBase64 (client_answering (html_response 500)) ''data:image/png;base64,TWFu'')
       = Inr (JObj [(''error'', JStr ''Unknown error'')])"
    using predictFromBase64_not_ok [OF relay_answer a] throw_http_error_unparseable [OF b]
    by simp
  have d: "status (html_response 500) = 500"
    by (simp add: html_response_def)
  show ?thesis
    by (simp add: relay_answer a b c d number_to_string_500)
qed

text \<open>
  C10. In the predict relay the configuration is tested before the body is read: with the
  API URL or the API key unset (or empty) the answer is 500, whatever the request body is
  and with no request forwarded; so the answer 400 "No image provided" is given only when
  both are set.
\<close>

theorem config_check_first:
  "(\<not> env_truthy (NEXT_PUBLIC_API_URL env) \<or> \<not> env_truthy (NEXT_PUBLIC_API_KEY env) \<longrightarrow>
      POST env body =
        (Inr \<lparr>reply_status = 500, reply_body = JObj [(''error'', JStr ''Server configuration error'')]\<rparr>, []))
   \<and> (fst (POST env body) = Inr \<lparr>reply_status = 400, reply_body = JObj [(''error'', JStr ''No image provided'')]\<rparr>
        \<longrightarrow> env_truthy (NEXT_PUBLIC_API_URL env) \<and> env_truthy (NEXT_PUBLIC_API_KEY env))"
proof (cases "\<not> env_truthy (NEXT_PUBLIC_API_URL env) \<or> \<not> env_truthy (NEXT_PUBLIC_API_KEY env)")
  case True
  then have "POST_try env body = (NextResponse_json (error_body ''Server configuration error'') 500, [])"
    by (simp add: POST_try_def)
  then have "POST env body =
      (Inr \<lparr>reply_status = 500, reply_body = JObj [(''error'', JStr ''Server configuration error'')]\<rparr>, [])"
    by (simp add: POST_def try_catch_def error_body_def)
  with True show ?thesis by simp
next
  case False
  then show ?thesis by simp
qed

theorem config_check_first_witness:
  "POST server_unconfigured (Inr (JObj [])) =
     (Inr \<lparr>reply_status = 500, reply_body = JObj [(''error'', JStr ''Server configuration error'')]\<rparr>, [])
   \<and> fst (POST (server_answering (json_response 200 JNull)) (Inr (JObj []))) =
       Inr \<lparr>reply_status = 400, reply_body = JObj [(''error'', JStr ''No image provided'')]\<rparr>
   \<and> env_truthy (NEXT_PUBLIC_API_URL (server_answering (json_response 200 JNull)))
   \<and> env_truthy (NEXT_PUBLIC_API_KEY (server_answering (json_response 200 JNull)))"
proof -
  have h1: "\<not> env_truthy (NEXT_PUBLIC_API_URL server_unconfigured)
            \<or> \<not> env_truthy (NEXT_PUBLIC_API_KEY server_unconfigured)"
    by (simp add: server_unconfigured_def)
  have h2: "fst (POST (server_answering (json_response 200 JNull)) (Inr (JObj []))) =
       Inr \<lparr>reply_status = 400, reply_body = JObj [(''error'', JStr ''No image provided'')]\<rparr>"
    by (simp add: POST_def POST_try_def server_answering_def try_catch_def error_body_def)
  from config_check_first [of server_unconfigured "Inr (JObj [])"] h1
  have c1: "POST server_unconfigured (Inr (JObj [])) =
     (Inr \<lparr>reply_status = 500, reply_body = JObj [(''error'', JStr ''Server configuration error'')]\<rparr>, [])"
    by blast
  from config_check_first [of "server_answering (json_response 200 JNull)" "Inr (JObj [])"] h2
  have c2: "env_truthy (NEXT_PUBLIC_API_URL (server_answering (json_response 200 JNull)))
   \<and> env_truthy (NEXT_PUBLIC_API_KEY (server_answering (json_response 200 JNull)))"
    by blast
  from c1 h2 c2 show ?thesis by blast
qed

end
